theory Spec2Isabelle
  imports Main
begin

section \<open>Strings of the scripts\<close>

text \<open>
  The scripts of the desktop application (\<^verbatim>\<open>main.js\<close>, \<^verbatim>\<open>settings.js\<close>, \<^verbatim>\<open>i18n.js\<close>) work on
  JavaScript strings. They are modelled as \<^typ>\<open>string\<close>, a list of bytes holding the UTF-8
  encoding of the text; every character the scripts test for (\<^verbatim>\<open>/\<close>, digits, signs, white
  space) is found the same way in that encoding.
\<close>

subsection \<open>\<^verbatim>\<open>serverUrl.replace(/\/+$/, "")\<close>\<close>

text \<open>
  The regular expression \<^verbatim>\<open>\/+$\<close> tried at the start of a suffix of the subject: the greedy
  \<^verbatim>\<open>\/+\<close> takes the whole run of slashes at the start (at least one), and \<^verbatim>\<open>$\<close> (no
  \<^verbatim>\<open>m\<close> flag) asks for the end of the subject after it. Backtracking to a shorter run
  leaves a slash, not the end, as next character, so it cannot succeed where the longest
  run fails.
\<close>

definition regex_slashes_to_end_at :: "string \<Rightarrow> bool" where
  "regex_slashes_to_end_at s =
     (let run = takeWhile (\<lambda>c. c = CHR ''/'') s
      in run \<noteq> [] \<and> drop (length run) s = [])"

text \<open>
  \<^verbatim>\<open>replace\<close> with a regular expression without the \<^verbatim>\<open>g\<close> flag replaces the leftmost
  match: the start positions are tried from left to right, and the match found, which
  reaches the end of the subject, is replaced by the empty string.
\<close>

fun replace_trailing_slashes :: "string \<Rightarrow> string" where
  "replace_trailing_slashes [] = []"
| "replace_trailing_slashes (c # cs) =
     (if regex_slashes_to_end_at (c # cs) then [] else c # replace_trailing_slashes cs)"

text \<open>
  The normalisation as the specification words it (``trailing slashes stripped''): remove
  slashes from the end for as long as there is one.
\<close>

definition strip_trailing_slashes_spec :: "string \<Rightarrow> string" where
  "strip_trailing_slashes_spec s = rev (dropWhile (\<lambda>c. c = CHR ''/'') (rev s))"

subsection \<open>White space: \<^verbatim>\<open>trim\<close> and the prefix skipped by \<^verbatim>\<open>parseInt\<close>\<close>

text \<open>
  The three-byte UTF-8 encodings of the white space and line terminator code points
  U+1680, U+2000 to U+200A, U+2028, U+2029, U+202F, U+205F, U+3000 and U+FEFF.
\<close>

definition utf8_ws3 :: "string list" where
  "utf8_ws3 =
     [[CHR 0xE1, CHR 0x9A, CHR 0x80],
      [CHR 0xE2, CHR 0x80, CHR 0x80], [CHR 0xE2, CHR 0x80, CHR 0x81],
      [CHR 0xE2, CHR 0x80, CHR 0x82], [CHR 0xE2, CHR 0x80, CHR 0x83],
      [CHR 0xE2, CHR 0x80, CHR 0x84], [CHR 0xE2, CHR 0x80, CHR 0x85],
      [CHR 0xE2, CHR 0x80, CHR 0x86], [CHR 0xE2, CHR 0x80, CHR 0x87],
      [CHR 0xE2, CHR 0x80, CHR 0x88], [CHR 0xE2, CHR 0x80, CHR 0x89],
      [CHR 0xE2, CHR 0x80, CHR 0x8A],
      [CHR 0xE2, CHR 0x80, CHR 0xA8], [CHR 0xE2, CHR 0x80, CHR 0xA9],
      [CHR 0xE2, CHR 0x80, CHR 0xAF], [CHR 0xE2, CHR 0x81, CHR 0x9F],
      [CHR 0xE3, CHR 0x80, CHR 0x80], [CHR 0xEF, CHR 0xBB, CHR 0xBF]]"

text \<open>
  The number of bytes of the white space character at the start of a string, 0 when the
  string does not start with one. One byte: TAB, LF, VT, FF, CR, space; two bytes: U+00A0.
\<close>

definition ws_width :: "string \<Rightarrow> nat" where
  "ws_width s =
     (case s of
        [] \<Rightarrow> 0
      | c # _ \<Rightarrow>
          if c \<in> set [CHR 0x09, CHR 0x0A, CHR 0x0B, CHR 0x0C, CHR 0x0D, CHR 0x20] then 1
          else if take 2 s = [CHR 0xC2, CHR 0xA0] then 2
          else if take 3 s \<in> set utf8_ws3 then 3
          else 0)"

function trimStart :: "string \<Rightarrow> string" where
  "trimStart s = (if ws_width s = 0 then s else trimStart (drop (ws_width s) s))"
  by pat_completeness auto
termination
proof (relation "measure length")
  show "wf (measure length)" by simp
next
  fix s :: string
  assume "ws_width s \<noteq> 0"
  then have "s \<noteq> []" by (auto simp: ws_width_def)
  with \<open>ws_width s \<noteq> 0\<close> show "(drop (ws_width s) s, s) \<in> measure length" by simp
qed

declare trimStart.simps [simp del]

text \<open>Whether a string is white space from its start to its end.\<close>

definition ws_only :: "string \<Rightarrow> bool" where
  "ws_only s = (trimStart s = [])"

fun trimEnd :: "string \<Rightarrow> string" where
  "trimEnd [] = []"
| "trimEnd (c # cs) = (if ws_only (c # cs) then [] else c # trimEnd cs)"

definition trim :: "string \<Rightarrow> string" where
  "trim s = trimEnd (trimStart s)"

subsection \<open>Numbers\<close>

text \<open>
  A JavaScript Number as far as the scripts use one. \<open>Exact n\<close> is the integer \<open>n\<close>, with
  \<open>\<bar>n\<bar> \<le> 2^53\<close>, which a Number holds exactly (\<open>Exact 0\<close> stands for both zeros).
  \<open>Approx n\<close> is the Number that the conversion of the larger integer \<open>n\<close> rounds to, a
  value of great magnitude or an infinity, which the model does not compute.
\<close>

datatype js_number = NaN | Exact int | Approx int

definition to_number :: "int \<Rightarrow> js_number" where
  "to_number n = (if \<bar>n\<bar> \<le> 2 ^ 53 then Exact n else Approx n)"

text \<open>The value of a character as a digit (\<^verbatim>\<open>0-9\<close>, \<^verbatim>\<open>a-z\<close>, \<^verbatim>\<open>A-Z\<close>), if it is one.\<close>

definition digit_value :: "char \<Rightarrow> nat option" where
  "digit_value c =
     (let n = (of_char c :: nat) in
      if 48 \<le> n \<and> n \<le> 57 then Some (n - 48)
      else if 97 \<le> n \<and> n \<le> 122 then Some (n - 87)
      else if 65 \<le> n \<and> n \<le> 90 then Some (n - 55)
      else None)"

definition is_radix_digit :: "nat \<Rightarrow> char \<Rightarrow> bool" where
  "is_radix_digit R c = (case digit_value c of None \<Rightarrow> False | Some d \<Rightarrow> d < R)"

text \<open>The integer that a run of radix-\<open>R\<close> digits denotes, read from the left.\<close>

fun digits_value :: "nat \<Rightarrow> nat \<Rightarrow> string \<Rightarrow> nat" where
  "digits_value R acc [] = acc"
| "digits_value R acc (c # cs) =
     digits_value R (acc * R + (case digit_value c of None \<Rightarrow> 0 | Some d \<Rightarrow> d)) cs"

text \<open>
  \<^verbatim>\<open>parseInt(string)\<close> with no radix argument: skip leading white space, read a sign, take
  radix 16 after a \<^verbatim>\<open>0x\<close> or \<^verbatim>\<open>0X\<close> prefix and radix 10 otherwise, keep the longest run of
  digits of that radix; the result is NaN when the run is empty, and the signed value of the
  run as a Number otherwise.
\<close>

definition parseInt :: "string \<Rightarrow> js_number" where
  "parseInt inputString =
     (let S = trimStart inputString;
          neg = (take 1 S = ''-'');
          S1 = (if take 1 S = ''-'' \<or> take 1 S = ''+'' then drop 1 S else S);
          hex = (take 2 S1 = ''0x'' \<or> take 2 S1 = ''0X'');
          R = (if hex then 16 else 10);
          S2 = (if hex then drop 2 S1 else S1);
          Z = takeWhile (is_radix_digit R) S2
      in if Z = [] then NaN
         else let mathInt = int (digits_value R 0 Z)
              in to_number (if neg then - mathInt else mathInt))"

text \<open>Truthiness of a Number: NaN and the zeros are falsy.\<close>

definition number_truthy :: "js_number \<Rightarrow> bool" where
  "number_truthy x = (x \<noteq> NaN \<and> x \<noteq> Exact 0)"

text \<open>\<^verbatim>\<open>x || 60\<close> for a Number \<open>x\<close>.\<close>

definition or_60 :: "js_number \<Rightarrow> js_number" where
  "or_60 x = (if number_truthy x then x else Exact 60)"

text \<open>
  The decimal numeral of an integer, which is what assigning a Number to the \<^verbatim>\<open>value\<close> of an
  input element stores for the integers up to \<open>2^53\<close> in magnitude, which a Number holds
  exactly and prints in full. Larger interval values are outside the model.
\<close>

function show_nat :: "nat \<Rightarrow> string" where
  "show_nat n =
     (if n < 10 then [char_of (48 + n)] else show_nat (n div 10) @ [char_of (48 + n mod 10)])"
  by pat_completeness auto
termination
  by (relation "measure id") auto

declare show_nat.simps [simp del]

definition show_int :: "int \<Rightarrow> string" where
  "show_int i = (if i < 0 then CHR ''-'' # show_nat (nat (- i)) else show_nat (nat i))"

subsection \<open>\<^verbatim>\<open>JSON.stringify\<close> of an object of strings\<close>

definition hex_digit :: "nat \<Rightarrow> char" where
  "hex_digit n = (if n < 10 then char_of (48 + n) else char_of (87 + n))"

text \<open>
  The quoting of one character inside a JSON string: the double quote and the backslash get
  a backslash, the control characters below U+0020 their short escape or \<^verbatim>\<open>\u00XX\<close>.
\<close>

definition json_quote_char :: "char \<Rightarrow> string" where
  "json_quote_char c =
     (let n = (of_char c :: nat) in
      if c = CHR 0x22 then [CHR 0x5C, CHR 0x22]
      else if c = CHR 0x5C then [CHR 0x5C, CHR 0x5C]
      else if n = 8 then [CHR 0x5C, CHR ''b'']
      else if n = 9 then [CHR 0x5C, CHR ''t'']
      else if n = 10 then [CHR 0x5C, CHR ''n'']
      else if n = 12 then [CHR 0x5C, CHR ''f'']
      else if n = 13 then [CHR 0x5C, CHR ''r'']
      else if n < 32 then [CHR 0x5C, CHR ''u'', CHR ''0'', CHR ''0'',
                           hex_digit (n div 16), hex_digit (n mod 16)]
      else [c])"

definition json_quote :: "string \<Rightarrow> string" where
  "json_quote s = [CHR 0x22] @ concat (map json_quote_char s) @ [CHR 0x22]"

fun json_members :: "(string \<times> string) list \<Rightarrow> string" where
  "json_members [] = []"
| "json_members [(k, v)] = json_quote k @ '':'' @ json_quote v"
| "json_members ((k, v) # kv # kvs) =
     json_quote k @ '':'' @ json_quote v @ '','' @ json_members (kv # kvs)"

text \<open>An object whose properties are strings, in the order of its own keys.\<close>

definition JSON_stringify :: "(string \<times> string) list \<Rightarrow> string" where
  "JSON_stringify obj = ''{'' @ json_members obj @ ''}''"

section \<open>The page and its state\<close>

text \<open>
  An element of the page, with the properties the scripts read or write. \<open>classList\<close> is the
  list of class tokens, which both \<^verbatim>\<open>classList\<close> and \<^verbatim>\<open>className\<close> of the scripts work on.
  \<open>data_i18n\<close> is the \<^verbatim>\<open>data-i18n\<close> attribute, when the element has one.
\<close>

record element =
  tagName :: string
  el_type :: string
  el_value :: string
  textContent :: string
  classList :: "string list"
  checked :: bool
  data_i18n :: "string option"

text \<open>
  The record that the command \<^verbatim>\<open>get_settings\<close> answers with. A string that is absent is
  the empty string here: the scripts test both with \<^verbatim>\<open>!\<close> and \<^verbatim>\<open>||\<close> only.
\<close>

record settings =
  server_url :: string
  access_token :: string
  update_interval :: int
  language :: string
  autostart :: bool
  device_id :: string
  webhook_id :: string
  is_registered :: bool

text \<open>An entry of the answer of \<^verbatim>\<open>get_sensor_list\<close>.\<close>

record sensor =
  sensor_id :: string
  sensor_name :: string
  enabled :: bool
  updates_at_interval :: bool

text \<open>A row that \<^verbatim>\<open>populateSensorList\<close> builds: check box, label and badge.\<close>

record sensor_row =
  row_sensor :: string
  checkbox_id :: string
  row_checked :: bool
  label_text :: string
  badge_class :: string
  badge_text :: string

text \<open>
  The argument object of \<^verbatim>\<open>save_settings\<close>: its properties \<^verbatim>\<open>serverUrl\<close>, \<^verbatim>\<open>accessToken\<close>,
  \<^verbatim>\<open>updateInterval\<close>, \<^verbatim>\<open>language\<close> and \<^verbatim>\<open>autostart\<close>.
\<close>

record save_args =
  arg_serverUrl :: string
  arg_accessToken :: string
  arg_updateInterval :: js_number
  arg_language :: string
  arg_autostart :: bool

text \<open>The commands sent to the backend with \<^verbatim>\<open>window.__TAURI__.core.invoke\<close>.\<close>

datatype command =
    Get_settings
  | Save_settings save_args
  | Register_device
  | Load_dashboard
  | Get_sensor_list
  | Toggle_sensor string bool

text \<open>
  Which of the two assignments to \<^verbatim>\<open>iframe.src\<close> in \<^verbatim>\<open>loadDashboard\<close> an assignment is: the
  one to the blank page, or the one in the load handler to the dashboard.
\<close>

datatype nav_step = ToBlank | ToDashboard

text \<open>
  What the scripts do that is seen from outside, in the order in which they do it: an
  assignment to \<^verbatim>\<open>iframe.src\<close>, the load event of the frame, a completed
  \<^verbatim>\<open>localStorage.setItem\<close>, one that threw, the console (with the arguments of the call),
  \<^verbatim>\<open>alert\<close>, a command sent.
\<close>

datatype effect =
    AssignSrc nav_step string
  | LoadFired
  | SetItem string string
  | SetItemThrew string
  | ConsoleWarn "string list"
  | ConsoleError "string list"
  | Alert string
  | Invoke command

text \<open>
  The translation tables of \<^verbatim>\<open>i18n.js\<close>, \<^verbatim>\<open>translations.en\<close> and \<^verbatim>\<open>translations.nl\<close>; their
  entries are taken as given.
\<close>

record tables =
  table_en :: "(string \<times> string) list"
  table_nl :: "(string \<times> string) list"

text \<open>
  The state of the page. \<open>document\<close> gives the element of an id (\<^verbatim>\<open>index.html\<close> declares every
  id the scripts look up). \<open>iframe_src\<close>, \<open>iframe_onload\<close> and \<open>localStorage\<close> belong to the
  frame \<^verbatim>\<open>ha-dashboard\<close>: its \<^verbatim>\<open>src\<close>, its load handler (when set, the closure
  \<^verbatim>\<open>onFirstLoad\<close> with the \<^verbatim>\<open>baseUrl\<close> and \<^verbatim>\<open>token\<close> it captured) and the storage of its
  window. \<open>sensor_rows\<close> are the children of \<^verbatim>\<open>sensor-list\<close>, and \<open>rows_generation\<close> counts
  how often they were rebuilt. \<open>in_flight\<close> holds the \<^verbatim>\<open>toggle_sensor\<close> calls awaiting their
  answer, oldest first: the generation and index of the check box whose handler waits, the
  sensor id and the value sent. \<open>persisted\<close> is the enablement the backend holds.
\<close>

record app =
  document :: "string \<Rightarrow> element"
  iframe_src :: string
  iframe_onload :: "(string \<times> string) option"
  localStorage :: "string \<rightharpoonup> string"
  sensor_rows :: "sensor_row list"
  rows_generation :: nat
  in_flight :: "(nat \<times> nat \<times> string \<times> bool) list"
  persisted :: "string \<rightharpoonup> bool"
  currentSettings :: "settings option"
  currentLanguage :: string
  trace :: "effect list"

definition emit :: "effect \<Rightarrow> app \<Rightarrow> app" where
  "emit e s = s\<lparr>trace := trace s @ [e]\<rparr>"

definition update_el :: "string \<Rightarrow> (element \<Rightarrow> element) \<Rightarrow> app \<Rightarrow> app" where
  "update_el i f s = s\<lparr>document := (document s)(i := f (document s i))\<rparr>"

definition classList_add :: "string \<Rightarrow> string \<Rightarrow> app \<Rightarrow> app" where
  "classList_add i c s =
     update_el i (\<lambda>el. if c \<in> set (classList el) then el
                       else el\<lparr>classList := classList el @ [c]\<rparr>) s"

definition classList_remove :: "string \<Rightarrow> string \<Rightarrow> app \<Rightarrow> app" where
  "classList_remove i c s = update_el i (\<lambda>el. el\<lparr>classList := removeAll c (classList el)\<rparr>) s"

definition set_value :: "string \<Rightarrow> string \<Rightarrow> app \<Rightarrow> app" where
  "set_value i v s = update_el i (\<lambda>el. el\<lparr>el_value := v\<rparr>) s"

definition set_textContent :: "string \<Rightarrow> string \<Rightarrow> app \<Rightarrow> app" where
  "set_textContent i v s = update_el i (\<lambda>el. el\<lparr>textContent := v\<rparr>) s"

definition is_hidden :: "string \<Rightarrow> app \<Rightarrow> bool" where
  "is_hidden i s = (''hidden'' \<in> set (classList (document s i)))"

section \<open>\<^verbatim>\<open>i18n.js\<close>\<close>

definition translation_table :: "tables \<Rightarrow> string \<Rightarrow> (string \<times> string) list option" where
  "translation_table T lang =
     (if lang = ''en'' then Some (table_en T) else if lang = ''nl'' then Some (table_nl T) else None)"

text \<open>
  \<^verbatim>\<open>table[key]\<close> when it is truthy: a missing entry and the empty string are not. Only the
  entries of the tables themselves are looked up, here and in \<open>translation_table\<close>: the
  members that a JavaScript object inherits (\<^verbatim>\<open>constructor\<close>, \<^verbatim>\<open>toString\<close> and the like), which
  the scripts would find for a language or a key of such a name, are outside the model.
\<close>

definition truthy_entry :: "(string \<times> string) list \<Rightarrow> string \<Rightarrow> string option" where
  "truthy_entry table key =
     (case map_of table key of None \<Rightarrow> None | Some v \<Rightarrow> if v = [] then None else Some v)"

definition t :: "tables \<Rightarrow> app \<Rightarrow> string \<Rightarrow> string" where
  "t T s key =
     (let lang = (case translation_table T (currentLanguage s) of Some l \<Rightarrow> l | None \<Rightarrow> table_en T) in
      case truthy_entry lang key of
        Some v \<Rightarrow> v
      | None \<Rightarrow> (case truthy_entry (table_en T) key of Some v \<Rightarrow> v | None \<Rightarrow> key))"

definition updateUITranslations :: "tables \<Rightarrow> app \<Rightarrow> app" where
  "updateUITranslations T s =
     s\<lparr>document := (\<lambda>i. let el = document s i in
                   case data_i18n el of
                     None \<Rightarrow> el
                   | Some key \<Rightarrow>
                       if tagName el = ''INPUT'' \<and> el_type el \<noteq> ''checkbox'' then el
                       else if tagName el \<in> set [''LABEL'', ''SPAN'', ''H1'', ''H2'', ''H3'',
                                                  ''P'', ''BUTTON'', ''SMALL'']
                       then el\<lparr>textContent := t T s key\<rparr>
                       else el)\<rparr>"

definition setLanguage :: "tables \<Rightarrow> string \<Rightarrow> app \<Rightarrow> app" where
  "setLanguage T lang s =
     (case translation_table T lang of
        None \<Rightarrow>
          updateUITranslations T
            ((emit (ConsoleWarn [''Language '' @ [CHR 0x27] @ lang @ [CHR 0x27] @
                                  '' not supported, falling back to '' @
                                  [CHR 0x27] @ ''en'' @ [CHR 0x27]])
               s)\<lparr>currentLanguage := ''en''\<rparr>)
      | Some _ \<Rightarrow> updateUITranslations T (s\<lparr>currentLanguage := lang\<rparr>))"

section \<open>\<^verbatim>\<open>main.js\<close>\<close>

text \<open>
  The functions of \<^verbatim>\<open>main.js\<close> in the version that loads the dashboard into the frame
  \<^verbatim>\<open>ha-dashboard\<close>. A call of \<^verbatim>\<open>invoke\<close> is awaited: the function takes the answer of the
  backend as an argument, \<open>Inl\<close> with the value thrown when the call is rejected, and runs
  to its end on it.
\<close>

subsection \<open>\<^verbatim>\<open>loadDashboard\<close>\<close>

text \<open>The object literal \<^verbatim>\<open>hassTokens\<close> of the load handler.\<close>

definition hassTokens :: "string \<Rightarrow> string \<Rightarrow> (string \<times> string) list" where
  "hassTokens baseUrl token =
     [(''hassUrl'', baseUrl), (''access_token'', token), (''token_type'', ''Bearer'')]"

text \<open>
  \<^verbatim>\<open>loadDashboard(serverUrl, token)\<close> up to its return: with an empty URL or token it hides
  the container; otherwise it points the frame at the blank page and installs the load
  handler, which captures \<^verbatim>\<open>baseUrl\<close> and \<^verbatim>\<open>token\<close>.
\<close>

definition loadDashboard :: "string \<Rightarrow> string \<Rightarrow> app \<Rightarrow> app" where
  "loadDashboard serverUrl token s =
     (if serverUrl = [] \<or> token = [] then classList_add ''dashboard-container'' ''hidden'' s
      else
        let baseUrl = replace_trailing_slashes serverUrl;
            s1 = (emit (AssignSrc ToBlank ''about:blank'') s)\<lparr>iframe_src := ''about:blank''\<rparr>
        in s1\<lparr>iframe_onload := Some (baseUrl, token)\<rparr>)"

text \<open>
  What the storage of the frame's window does with a write: it takes it, or it throws
  (the storage is not accessible) the given exception.
\<close>

datatype storage_outcome = StorageOk | StorageThrows string

text \<open>
  The handler \<^verbatim>\<open>onFirstLoad\<close> with its captured \<^verbatim>\<open>baseUrl\<close> and \<^verbatim>\<open>token\<close>: it removes itself,
  tries the write of \<^verbatim>\<open>hassTokens\<close> (a throw is caught and sent to \<^verbatim>\<open>console.warn\<close>), then
  assigns \<^verbatim>\<open>baseUrl\<close> to \<^verbatim>\<open>iframe.src\<close> and shows the container.
\<close>

definition onFirstLoad :: "string \<Rightarrow> string \<Rightarrow> storage_outcome \<Rightarrow> app \<Rightarrow> app" where
  "onFirstLoad baseUrl token out s =
     (let s1 = s\<lparr>iframe_onload := None\<rparr>;
          s2 = (case out of
                  StorageOk \<Rightarrow>
                    (emit (SetItem ''hassTokens'' (JSON_stringify (hassTokens baseUrl token))) s1)
                      \<lparr>localStorage := (localStorage s1)
                         (''hassTokens'' \<mapsto> JSON_stringify (hassTokens baseUrl token))\<rparr>
                | StorageThrows e \<Rightarrow>
                    emit (ConsoleWarn [''Could not inject tokens into iframe localStorage:'', e])
                      (emit (SetItemThrew e) s1));
          s3 = (emit (AssignSrc ToDashboard baseUrl) s2)\<lparr>iframe_src := baseUrl\<rparr>
      in classList_remove ''dashboard-container'' ''hidden'' s3)"

text \<open>
  The load event of the frame: the document that \<^verbatim>\<open>iframe.src\<close> was last pointed at has
  finished loading. The handler runs if one is installed.
\<close>

definition iframe_load :: "storage_outcome \<Rightarrow> app \<Rightarrow> app" where
  "iframe_load out s =
     (case iframe_onload s of
        None \<Rightarrow> emit LoadFired s
      | Some (baseUrl, token) \<Rightarrow> onFirstLoad baseUrl token out (emit LoadFired s))"

subsection \<open>The setup screen\<close>

definition showSetupScreen :: "app \<Rightarrow> app" where
  "showSetupScreen s =
     classList_add ''dashboard-container'' ''hidden''
       (classList_remove ''setup-screen'' ''hidden'' s)"

definition hideSetupScreen :: "app \<Rightarrow> app" where
  "hideSetupScreen s = classList_add ''setup-screen'' ''hidden'' s"

text \<open>
  \<^verbatim>\<open>handleSetup\<close>, given the answers of \<^verbatim>\<open>save_settings\<close> and \<^verbatim>\<open>register_device\<close> (\<open>Inl\<close> the
  value a rejected call throws at its \<^verbatim>\<open>await\<close>). The second answer is not looked at when
  the first call is rejected.
\<close>

definition handleSetup :: "(string + unit) \<Rightarrow> (string + unit) \<Rightarrow> app \<Rightarrow> app" where
  "handleSetup r_save r_register s =
     (let serverUrl = trim (el_value (document s ''setup-server-url''));
          token = trim (el_value (document s ''setup-token''));
          s1 = classList_remove ''setup-loading'' ''hidden''
                 (classList_add ''setup-error'' ''hidden'' s);
          s2 = emit (Invoke (Save_settings
                  \<lparr>arg_serverUrl = serverUrl, arg_accessToken = token, arg_updateInterval = Exact 60,
                   arg_language = currentLanguage s1, arg_autostart = False\<rparr>)) s1;
          catch = (\<lambda>err s'. classList_remove ''setup-error'' ''hidden''
                               (set_textContent ''setup-error'' err s'));
          s3 = (case r_save of
                  Inl err \<Rightarrow> catch err s2
                | Inr _ \<Rightarrow>
                    let s4 = emit (Invoke Register_device) s2 in
                    (case r_register of
                       Inl err \<Rightarrow> catch err s4
                     | Inr _ \<Rightarrow> loadDashboard serverUrl token (hideSetupScreen s4)))
      in classList_add ''setup-loading'' ''hidden'' s3)"

text \<open>
  \<^verbatim>\<open>initApp\<close>, given the answer of \<^verbatim>\<open>get_settings\<close>.
\<close>

definition initApp :: "tables \<Rightarrow> (string + settings) \<Rightarrow> app \<Rightarrow> app" where
  "initApp T r s =
     (let s1 = emit (Invoke Get_settings) s in
      case r of
        Inl err \<Rightarrow> showSetupScreen (emit (ConsoleError [''Failed to initialize app:'', err]) s1)
      | Inr st \<Rightarrow>
          let s2 = setLanguage T (if language st = [] then ''en'' else language st) s1 in
          if server_url st = [] \<or> access_token st = [] then showSetupScreen s2
          else if \<not> is_registered st then
            set_value ''setup-token'' (access_token st)
              (set_value ''setup-server-url'' (server_url st) (showSetupScreen s2))
          else loadDashboard (server_url st) (access_token st) s2)"

section \<open>\<^verbatim>\<open>settings.js\<close>\<close>

text \<open>
  The functions of \<^verbatim>\<open>settings.js\<close> in the version whose \<^verbatim>\<open>closeSettings\<close> sends the command
  \<^verbatim>\<open>load_dashboard\<close>.
\<close>

subsection \<open>The sensor list\<close>

text \<open>The row built for one sensor of the answer of \<^verbatim>\<open>get_sensor_list\<close>.\<close>

definition sensor_row_of :: "tables \<Rightarrow> app \<Rightarrow> sensor \<Rightarrow> sensor_row" where
  "sensor_row_of T s x =
     \<lparr>row_sensor = sensor_id x,
      checkbox_id = ''sensor-'' @ sensor_id x,
      row_checked = enabled x,
      label_text = (if t T s (sensor_id x) = [] then sensor_name x else t T s (sensor_id x)),
      badge_class = ''sensor-badge '' @
                    (if updates_at_interval x then ''badge-dynamic'' else ''badge-static''),
      badge_text = (if updates_at_interval x then t T s ''updates_at_interval''
                    else t T s ''static_sensor'')\<rparr>"

text \<open>
  Modelled from the spec: the backend that serves \<^verbatim>\<open>get_sensor_list\<close> and \<^verbatim>\<open>toggle_sensor\<close> is
  not among the sources. The field \<open>persisted\<close> follows the specification of the sensor
  registry: the list reports the persisted \<open>enabled\<close> flag of each sensor, and a toggle that
  succeeds persists the flag it was sent.
\<close>

definition reported_enablement :: "sensor list \<Rightarrow> string \<rightharpoonup> bool" where
  "reported_enablement sensors = map_of (map (\<lambda>x. (sensor_id x, enabled x)) sensors)"

text \<open>
  \<^verbatim>\<open>populateSensorList\<close>, given the answer of \<^verbatim>\<open>get_sensor_list\<close>: the rows are replaced by
  one row for each sensor; a rejected call is sent to \<^verbatim>\<open>console.error\<close>.
\<close>

definition populateSensorList :: "tables \<Rightarrow> (string + sensor list) \<Rightarrow> app \<Rightarrow> app" where
  "populateSensorList T r s =
     (let s1 = emit (Invoke Get_sensor_list) s in
      case r of
        Inl err \<Rightarrow> emit (ConsoleError [''Failed to load sensor list:'', err]) s1
      | Inr sensors \<Rightarrow>
          s1\<lparr>sensor_rows := map (sensor_row_of T s1) sensors,
             rows_generation := Suc (rows_generation s1),
             persisted := (\<lambda>i. case reported_enablement sensors i of
                                  Some b \<Rightarrow> Some b | None \<Rightarrow> persisted s1 i)\<rparr>)"

text \<open>
  The user changes the check box of row \<open>i\<close>: the browser flips \<^verbatim>\<open>checked\<close> and runs the
  \<^verbatim>\<open>change\<close> handler, which sends \<^verbatim>\<open>toggle_sensor\<close> with the new value and waits for the
  answer.
\<close>

definition checkbox_change :: "nat \<Rightarrow> app \<Rightarrow> app" where
  "checkbox_change i s =
     (if i < length (sensor_rows s) then
        let row = sensor_rows s ! i;
            c = \<not> row_checked row;
            s1 = s\<lparr>sensor_rows := (sensor_rows s)[i := row\<lparr>row_checked := c\<rparr>]\<rparr>;
            s2 = emit (Invoke (Toggle_sensor (row_sensor row) c)) s1
        in s2\<lparr>in_flight := in_flight s2 @ [(rows_generation s2, i, row_sensor row, c)]\<rparr>
      else s)"

text \<open>
  The oldest \<^verbatim>\<open>toggle_sensor\<close> call in flight is answered and its handler resumes. After a
  rejection the handler logs and assigns \<^verbatim>\<open>!checkbox.checked\<close> to its check box; that
  check box is still in the list only if the rows were not rebuilt since.
\<close>

definition toggle_settled :: "(string + unit) \<Rightarrow> app \<Rightarrow> app" where
  "toggle_settled r s =
     (case in_flight s of
        [] \<Rightarrow> s
      | (g, i, sid, sent) # rest \<Rightarrow>
          let s1 = s\<lparr>in_flight := rest\<rparr> in
          (case r of
             Inr _ \<Rightarrow> s1\<lparr>persisted := (persisted s1)(sid \<mapsto> sent)\<rparr>
           | Inl err \<Rightarrow>
               let s2 = emit (ConsoleError [''Failed to toggle sensor:'', err]) s1 in
               if g = rows_generation s2 \<and> i < length (sensor_rows s2) then
                 s2\<lparr>sensor_rows := (sensor_rows s2)
                      [i := (sensor_rows s2 ! i)
                              \<lparr>row_checked := \<not> row_checked (sensor_rows s2 ! i)\<rparr>]\<rparr>
               else s2))"

subsection \<open>The settings modal\<close>

text \<open>
  \<^verbatim>\<open>openSettings\<close>, given the answers of \<^verbatim>\<open>get_settings\<close> and of \<^verbatim>\<open>get_sensor_list\<close>. The
  second answer is not looked at when the first call is rejected. The 16 characters taken
  of the webhook id are counted in bytes here, which is what \<^verbatim>\<open>substring(0, 16)\<close> takes of
  an id in ASCII.
\<close>

definition openSettings ::
  "tables \<Rightarrow> (string + settings) \<Rightarrow> (string + sensor list) \<Rightarrow> app \<Rightarrow> app" where
  "openSettings T r_settings r_sensors s =
     (let s0 = emit (Invoke Get_settings) s in
      case r_settings of
        Inl err \<Rightarrow> emit (ConsoleError [''Failed to load settings:'', err]) s0
      | Inr cs \<Rightarrow>
          let s1 = s0\<lparr>currentSettings := Some cs\<rparr>;
              s2 = set_value ''settings-server-url'' (server_url cs) s1;
              s3 = set_value ''settings-token'' (access_token cs) s2;
              s4 = set_value ''settings-interval''
                     (show_int (if update_interval cs = 0 then 60 else update_interval cs)) s3;
              s5 = set_value ''settings-language''
                     (if language cs = [] then ''en'' else language cs) s4;
              s6 = update_el ''settings-autostart'' (\<lambda>el. el\<lparr>checked := autostart cs\<rparr>) s5;
              s7 = set_textContent ''info-device-id''
                     (if device_id cs = [] then ''-'' else device_id cs) s6;
              s8 = set_textContent ''info-webhook-id''
                     (if webhook_id cs = [] then ''-'' else take 16 (webhook_id cs) @ ''...'') s7;
              s9 = set_textContent ''info-status''
                     (if is_registered cs then t T s8 ''registered'' else t T s8 ''not_registered'')
                     s8;
              s10 = update_el ''info-status''
                      (\<lambda>el. el\<lparr>classList :=
                         [''info-value'',
                          if is_registered cs then ''status-ok'' else ''status-error'']\<rparr>) s9;
              s11 = set_textContent ''info-my-ip'' ''-'' s10;
              s12 = populateSensorList T r_sensors s11
          in classList_remove ''settings-overlay'' ''hidden'' s12)"

text \<open>
  \<^verbatim>\<open>closeSettings\<close>, given the answer of the command \<^verbatim>\<open>load_dashboard\<close>.
\<close>

definition closeSettings :: "(string + unit) \<Rightarrow> app \<Rightarrow> app" where
  "closeSettings r s =
     (let s1 = emit (Invoke Load_dashboard) (classList_add ''settings-overlay'' ''hidden'' s) in
      case r of
        Inl err \<Rightarrow> emit (ConsoleError [''Failed to restore dashboard:'', err]) s1
      | Inr _ \<Rightarrow> s1)"

text \<open>The \<^verbatim>\<open>updateInterval\<close> that \<^verbatim>\<open>saveSettings\<close> computes from the interval field.\<close>

definition interval_of_field :: "string \<Rightarrow> js_number" where
  "interval_of_field v = or_60 (parseInt v)"

text \<open>The argument object that \<^verbatim>\<open>saveSettings\<close> builds from the fields of the modal.\<close>

definition saveSettings_args :: "app \<Rightarrow> save_args" where
  "saveSettings_args s =
     \<lparr>arg_serverUrl = trim (el_value (document s ''settings-server-url'')),
      arg_accessToken = trim (el_value (document s ''settings-token'')),
      arg_updateInterval = interval_of_field (el_value (document s ''settings-interval'')),
      arg_language = el_value (document s ''settings-language''),
      arg_autostart = checked (document s ''settings-autostart'')\<rparr>"

text \<open>
  \<^verbatim>\<open>saveSettings\<close>, given the answers of \<^verbatim>\<open>save_settings\<close> and, for the \<^verbatim>\<open>closeSettings\<close> it
  ends with, of \<^verbatim>\<open>load_dashboard\<close>.
\<close>

definition saveSettings :: "tables \<Rightarrow> (string + unit) \<Rightarrow> (string + unit) \<Rightarrow> app \<Rightarrow> app" where
  "saveSettings T r_save r_load s =
     (let args = saveSettings_args s;
          s1 = emit (Invoke (Save_settings args)) s
      in case r_save of
           Inl err \<Rightarrow>
             emit (Alert (''Failed to save settings: '' @ err))
               (emit (ConsoleError [''Failed to save settings:'', err]) s1)
         | Inr _ \<Rightarrow> closeSettings r_load (setLanguage T (arg_language args) s1))"

definition togglePassword :: "string \<Rightarrow> app \<Rightarrow> app" where
  "togglePassword inputId s =
     update_el inputId
       (\<lambda>input. input\<lparr>el_type := (if el_type input = ''password'' then ''text''
                                   else ''password'')\<rparr>) s"

subsection \<open>The version of \<^verbatim>\<open>settings.js\<close> that goes with the frame\<close>

text \<open>
  In the other version of \<^verbatim>\<open>settings.js\<close>, the one that goes with the \<^verbatim>\<open>main.js\<close> modelled
  above, \<^verbatim>\<open>closeSettings\<close> only hides the overlay, and \<^verbatim>\<open>saveSettings\<close> builds the same argument
  object, and after a successful \<^verbatim>\<open>save_settings\<close> calls \<^verbatim>\<open>loadDashboard\<close> if the server URL
  of the field differs from the one that \<^verbatim>\<open>openSettings\<close> has loaded into
  \<^verbatim>\<open>currentSettings\<close>. The two functions carry the suffix \<open>_frame\<close> here.
\<close>

definition closeSettings_frame :: "app \<Rightarrow> app" where
  "closeSettings_frame s = classList_add ''settings-overlay'' ''hidden'' s"

definition saveSettings_frame :: "tables \<Rightarrow> (string + unit) \<Rightarrow> app \<Rightarrow> app" where
  "saveSettings_frame T r_save s =
     (let args = saveSettings_args s;
          s1 = emit (Invoke (Save_settings args)) s
      in case r_save of
           Inl err \<Rightarrow>
             emit (Alert (''Failed to save settings: '' @ err))
               (emit (ConsoleError [''Failed to save settings:'', err]) s1)
         | Inr _ \<Rightarrow>
             let s2 = setLanguage T (arg_language args) s1;
                 s3 = (case currentSettings s2 of
                         None \<Rightarrow> s2
                       | Some cs \<Rightarrow>
                           if arg_serverUrl args \<noteq> server_url cs
                           then loadDashboard (arg_serverUrl args) (arg_accessToken args) s2
                           else s2)
             in closeSettings_frame s3)"

section \<open>Runs of the page\<close>

text \<open>
  What can happen to the page, each with the answers that the backend and the frame give:
  the functions of the scripts are called (of either version of \<^verbatim>\<open>settings.js\<close>), the frame
  fires its load event, the user changes a check box or types into a field, a command in
  flight is answered.
\<close>

datatype event =
    InitApp "string + settings"
  | HandleSetup "string + unit" "string + unit"
  | LoadDashboard string string
  | IframeLoad storage_outcome
  | OpenSettings "string + settings" "string + sensor list"
  | CloseSettings "string + unit"
  | SaveSettings "string + unit" "string + unit"
  | TogglePassword string
  | CheckboxChange nat
  | ToggleSettled "string + unit"
  | UserTypes string string
  | CloseSettingsFrame
  | SaveSettingsFrame "string + unit"

fun step :: "tables \<Rightarrow> event \<Rightarrow> app \<Rightarrow> app" where
  "step T (InitApp r) s = initApp T r s"
| "step T (HandleSetup r1 r2) s = handleSetup r1 r2 s"
| "step T (LoadDashboard serverUrl token) s = loadDashboard serverUrl token s"
| "step T (IframeLoad out) s = iframe_load out s"
| "step T (OpenSettings r1 r2) s = openSettings T r1 r2 s"
| "step T (CloseSettings r) s = closeSettings r s"
| "step T (SaveSettings r1 r2) s = saveSettings T r1 r2 s"
| "step T (TogglePassword inputId) s = togglePassword inputId s"
| "step T (CheckboxChange i) s = checkbox_change i s"
| "step T (ToggleSettled r) s = toggle_settled r s"
| "step T (UserTypes i v) s = set_value i v s"
| "step T CloseSettingsFrame s = closeSettings_frame s"
| "step T (SaveSettingsFrame r) s = saveSettings_frame T r s"

fun run :: "tables \<Rightarrow> event list \<Rightarrow> app \<Rightarrow> app" where
  "run T [] s = s"
| "run T (e # es) s = run T es (step T e s)"

text \<open>
  The page as \<^verbatim>\<open>index.html\<close> presents it before any script has run, for a given content
  of the elements: nothing traced, no load handler, no rows, no call in flight.
\<close>

definition initial :: "(string \<Rightarrow> element) \<Rightarrow> app" where
  "initial d =
     \<lparr>document = d, iframe_src = [], iframe_onload = None, localStorage = Map.empty,
      sensor_rows = [], rows_generation = 0, in_flight = [], persisted = Map.empty,
      currentSettings = None, currentLanguage = ''en'', trace = []\<rparr>"

section \<open>Notions used by the properties\<close>

text \<open>An element with nothing set, for concrete pages.\<close>

definition blank_element :: element where
  "blank_element =
     \<lparr>tagName = ''DIV'', el_type = [], el_value = [], textContent = [], classList = [],
      checked = False, data_i18n = None\<rparr>"


text \<open>Translation tables without entries, for concrete runs.\<close>

definition no_tables :: tables where
  "no_tables = \<lparr>table_en = [], table_nl = []\<rparr>"

text \<open>Answers of \<^verbatim>\<open>get_settings\<close>: a fresh installation, and a registered device.\<close>

definition fresh_settings :: settings where
  "fresh_settings =
     \<lparr>server_url = [], access_token = [], update_interval = 60, language = ''en'',
      autostart = False, device_id = [], webhook_id = [], is_registered = False\<rparr>"

definition registered_settings :: settings where
  "registered_settings =
     \<lparr>server_url = ''http://ha.local:8123/'', access_token = ''abc'', update_interval = 60,
      language = ''en'', autostart = False, device_id = ''d1'', webhook_id = ''w1'',
      is_registered = True\<rparr>"

text \<open>A Number that is an integer and at least 1.\<close>

fun integer_at_least_one :: "js_number \<Rightarrow> bool" where
  "integer_at_least_one (Exact n) = (1 \<le> n)"
| "integer_at_least_one x = False"

text \<open>The URLs assigned to \<^verbatim>\<open>iframe.src\<close>, in the order of the assignments.\<close>

fun assigned_srcs :: "effect list \<Rightarrow> string list" where
  "assigned_srcs [] = []"
| "assigned_srcs (AssignSrc k u # es) = u # assigned_srcs es"
| "assigned_srcs (e # es) = assigned_srcs es"

text \<open>What was sent to the console or to \<^verbatim>\<open>alert\<close>, in order.\<close>

fun is_message :: "effect \<Rightarrow> bool" where
  "is_message (ConsoleWarn args) = True"
| "is_message (ConsoleError args) = True"
| "is_message (Alert m) = True"
| "is_message e = False"

definition messages :: "effect list \<Rightarrow> effect list" where
  "messages tr = filter is_message tr"

text \<open>The commands sent to the backend, in order.\<close>

fun commands :: "effect list \<Rightarrow> command list" where
  "commands [] = []"
| "commands (Invoke c # es) = c # commands es"
| "commands (e # es) = commands es"

text \<open>
  Sequencing of the bootstrap, read off the trace. The predicates look at what was traced
  before some point, latest first. \<open>blank_awaited\<close>: the latest assignment to \<^verbatim>\<open>iframe.src\<close>
  is the one of the blank page, and the frame has not fired a load event since; so the next
  load event is the one of the blank page.
\<close>

fun blank_awaited :: "effect list \<Rightarrow> bool" where
  "blank_awaited [] = False"
| "blank_awaited (AssignSrc k u # before) = (k = ToBlank \<and> u = ''about:blank'')"
| "blank_awaited (LoadFired # before) = False"
| "blank_awaited (e # before) = blank_awaited before"

text \<open>
  What holds before a navigation to the dashboard. \<open>injection_returned\<close>: the latest effect is
  the completed write of \<^verbatim>\<open>hassTokens\<close>, directly after a load event, and that load event is
  the one of the blank page. \<open>attempt_finished\<close>: the same, or the write threw and the
  exception went to \<^verbatim>\<open>console.warn\<close>.
\<close>

fun injection_returned :: "effect list \<Rightarrow> bool" where
  "injection_returned (SetItem k v # LoadFired # before) =
     (k = ''hassTokens'' \<and> blank_awaited before)"
| "injection_returned before = False"

fun attempt_finished :: "effect list \<Rightarrow> bool" where
  "attempt_finished (SetItem k v # LoadFired # before) =
     (k = ''hassTokens'' \<and> blank_awaited before)"
| "attempt_finished (ConsoleWarn args # SetItemThrew e # LoadFired # before) =
     (args = [''Could not inject tokens into iframe localStorage:'', e] \<and> blank_awaited before)"
| "attempt_finished before = False"

text \<open>An effect that is neither an assignment to \<^verbatim>\<open>iframe.src\<close> nor a load event.\<close>

fun quiet :: "effect \<Rightarrow> bool" where
  "quiet (AssignSrc k u) = False"
| "quiet LoadFired = False"
| "quiet e = True"

text \<open>
  \<open>navigations_follow P before tr\<close>: every navigation to the dashboard in \<open>tr\<close> comes when
  \<open>P\<close> holds of what was traced up to it (\<open>before\<close>, latest first, is what precedes \<open>tr\<close>).
\<close>

fun navigations_follow :: "(effect list \<Rightarrow> bool) \<Rightarrow> effect list \<Rightarrow> effect list \<Rightarrow> bool" where
  "navigations_follow P before [] = True"
| "navigations_follow P before (AssignSrc ToDashboard u # es) =
     (P before \<and> navigations_follow P (AssignSrc ToDashboard u # before) es)"
| "navigations_follow P before (e # es) = navigations_follow P (e # before) es"

text \<open>
  An input element presents its value in clear text unless its type is \<^verbatim>\<open>password\<close>, which
  masks every character. The token field of the settings modal is seen when the overlay is
  not hidden.
\<close>

definition shows_in_clear :: "element \<Rightarrow> string \<Rightarrow> bool" where
  "shows_in_clear input v = (el_type input \<noteq> ''password'' \<and> el_value input = v)"

definition token_displayed_in_full :: "app \<Rightarrow> string \<Rightarrow> bool" where
  "token_displayed_in_full s tok =
     (\<not> is_hidden ''settings-overlay'' s \<and> shows_in_clear (document s ''settings-token'') tok)"

text \<open>Every row of the sensor list shows the enablement that is persisted for its sensor.\<close>

definition rows_show_persisted :: "app \<Rightarrow> bool" where
  "rows_show_persisted s =
     list_all (\<lambda>row. persisted s (row_sensor row) = Some (row_checked row)) (sensor_rows s)"

text \<open>The events of a user who changes check boxes one at a time, each answered before the next.\<close>

fun one_at_a_time :: "(nat \<times> (string + unit)) list \<Rightarrow> event list" where
  "one_at_a_time [] = []"
| "one_at_a_time ((i, r) # xs) = CheckboxChange i # ToggleSettled r # one_at_a_time xs"

text \<open>The operations of the settings modal that the token passes through.\<close>

fun is_settings_event :: "event \<Rightarrow> bool" where
  "is_settings_event (OpenSettings r1 r2) = True"
| "is_settings_event (TogglePassword i) = True"
| "is_settings_event (SaveSettings r1 r2) = True"
| "is_settings_event e = False"

text \<open>
  A page whose token field is a password input and whose settings overlay is hidden, as the
  modal is before it is opened.
\<close>

definition password_input :: element where
  "password_input = blank_element\<lparr>tagName := ''INPUT'', el_type := ''password''\<rparr>"

definition settings_page :: "string \<Rightarrow> element" where
  "settings_page i =
     (if i = ''settings-token'' then password_input
      else if i = ''settings-overlay'' then blank_element\<lparr>classList := [''hidden'']\<rparr>
      else blank_element)"

text \<open>The type that \<^verbatim>\<open>togglePassword\<close> gives an input of a given type.\<close>

definition flip_type :: "string \<Rightarrow> string" where
  "flip_type ty = (if ty = ''password'' then ''text'' else ''password'')"

text \<open>A sensor list with one enabled sensor, and the page after it was populated with it.\<close>

definition cpu_sensor :: sensor where
  "cpu_sensor =
     \<lparr>sensor_id = ''cpu_usage'', sensor_name = ''CPU Usage'', enabled = True,
      updates_at_interval = True\<rparr>"

definition one_sensor_page :: app where
  "one_sensor_page = populateSensorList no_tables (Inr [cpu_sensor]) (initial (\<lambda>i. blank_element))"

text \<open>
  An event with the token in the answer of \<^verbatim>\<open>get_settings\<close> replaced: \<open>f\<close> gives the token that
  takes the place of a token.
\<close>

fun with_token :: "(string \<Rightarrow> string) \<Rightarrow> event \<Rightarrow> event" where
  "with_token f (OpenSettings (Inr cs) r2) =
     OpenSettings (Inr (cs\<lparr>access_token := f (access_token cs)\<rparr>)) r2"
| "with_token f e = e"

text \<open>
  The three steps of the bootstrap in a stretch of the trace, in their order: the blank page
  is assigned and loads, then the credential is written (or the write is tried and throws),
  then the dashboard is assigned. \<open>bootstrap_progress\<close> gives the stage that a stretch gets
  to from a given stage.
\<close>

datatype bootstrap_stage =
  Nothing_done | Blank_assigned | Blank_loaded | Write_tried | Dashboard_assigned

fun bootstrap_progress :: "bootstrap_stage \<Rightarrow> effect list \<Rightarrow> bootstrap_stage" where
  "bootstrap_progress st [] = st"
| "bootstrap_progress Nothing_done (AssignSrc ToBlank u # es) =
     bootstrap_progress Blank_assigned es"
| "bootstrap_progress Blank_assigned (LoadFired # es) = bootstrap_progress Blank_loaded es"
| "bootstrap_progress Blank_loaded (SetItem k v # es) = bootstrap_progress Write_tried es"
| "bootstrap_progress Blank_loaded (SetItemThrew x # es) = bootstrap_progress Write_tried es"
| "bootstrap_progress Write_tried (AssignSrc ToDashboard u # es) =
     bootstrap_progress Dashboard_assigned es"
| "bootstrap_progress st (e # es) = bootstrap_progress st es"

definition repeats_three_steps :: "effect list \<Rightarrow> bool" where
  "repeats_three_steps tr = (bootstrap_progress Nothing_done tr = Dashboard_assigned)"

text \<open>What an operation has added to the trace of the state it started from.\<close>

definition added :: "app \<Rightarrow> app \<Rightarrow> effect list" where
  "added s s' = drop (length (trace s)) (trace s')"

text \<open>
  The page after a first, completed bootstrap; and that page with the settings modal filled
  with the settings of the registered device.
\<close>

definition dashboard_shown_page :: app where
  "dashboard_shown_page =
     run no_tables [LoadDashboard ''http://ha.local:8123/'' ''abc'', IframeLoad StorageOk]
       (initial (\<lambda>i. blank_element))"

definition settings_filled_page :: app where
  "settings_filled_page =
     (set_value ''settings-token'' ''abc''
        (set_value ''settings-server-url'' ''http://ha.local:8123/'' dashboard_shown_page))
       \<lparr>currentSettings := Some registered_settings\<rparr>"

section \<open>Properties\<close>

subsection \<open>What the basic operations change\<close>

lemma emit_fields [simp]:
  "trace (emit e s) = trace s @ [e]"
  "document (emit e s) = document s"
  "iframe_src (emit e s) = iframe_src s"
  "iframe_onload (emit e s) = iframe_onload s"
  "localStorage (emit e s) = localStorage s"
  "sensor_rows (emit e s) = sensor_rows s"
  "rows_generation (emit e s) = rows_generation s"
  "in_flight (emit e s) = in_flight s"
  "persisted (emit e s) = persisted s"
  "currentSettings (emit e s) = currentSettings s"
  "currentLanguage (emit e s) = currentLanguage s"
  by (simp_all add: emit_def)

lemma update_el_fields [simp]:
  "trace (update_el i f s) = trace s"
  "document (update_el i f s) = (document s)(i := f (document s i))"
  "iframe_src (update_el i f s) = iframe_src s"
  "iframe_onload (update_el i f s) = iframe_onload s"
  "localStorage (update_el i f s) = localStorage s"
  "sensor_rows (update_el i f s) = sensor_rows s"
  "rows_generation (update_el i f s) = rows_generation s"
  "in_flight (update_el i f s) = in_flight s"
  "persisted (update_el i f s) = persisted s"
  "currentSettings (update_el i f s) = currentSettings s"
  "currentLanguage (update_el i f s) = currentLanguage s"
  by (simp_all add: update_el_def)

lemma updateUITranslations_fields [simp]:
  "trace (updateUITranslations T s) = trace s"
  "iframe_src (updateUITranslations T s) = iframe_src s"
  "iframe_onload (updateUITranslations T s) = iframe_onload s"
  "localStorage (updateUITranslations T s) = localStorage s"
  "sensor_rows (updateUITranslations T s) = sensor_rows s"
  "rows_generation (updateUITranslations T s) = rows_generation s"
  "in_flight (updateUITranslations T s) = in_flight s"
  "persisted (updateUITranslations T s) = persisted s"
  "currentSettings (updateUITranslations T s) = currentSettings s"
  "currentLanguage (updateUITranslations T s) = currentLanguage s"
  by (simp_all add: updateUITranslations_def)

lemmas dom_ops = classList_add_def classList_remove_def set_value_def set_textContent_def

text \<open>The translation pass rewrites \<^verbatim>\<open>textContent\<close> and nothing else of an element.\<close>

lemma updateUITranslations_element [simp]:
  "el_value (document (updateUITranslations T s) i) = el_value (document s i)"
  "el_type (document (updateUITranslations T s) i) = el_type (document s i)"
  "classList (document (updateUITranslations T s) i) = classList (document s i)"
  "checked (document (updateUITranslations T s) i) = checked (document s i)"
  by (simp_all add: updateUITranslations_def Let_def split: option.splits)

text \<open>The warning of \<^verbatim>\<open>setLanguage\<close> for a language without a table.\<close>

lemma setLanguage_trace:
  "trace (setLanguage T lang s) =
     trace s @ (case translation_table T lang of
                  None \<Rightarrow> [ConsoleWarn [''Language '' @ [CHR 0x27] @ lang @ [CHR 0x27] @
                                         '' not supported, falling back to '' @
                                         [CHR 0x27] @ ''en'' @ [CHR 0x27]]]
                | Some l \<Rightarrow> [])"
  by (simp add: setLanguage_def split: option.splits)

lemma setLanguage_fields [simp]:
  "iframe_src (setLanguage T lang s) = iframe_src s"
  "iframe_onload (setLanguage T lang s) = iframe_onload s"
  "localStorage (setLanguage T lang s) = localStorage s"
  "sensor_rows (setLanguage T lang s) = sensor_rows s"
  "rows_generation (setLanguage T lang s) = rows_generation s"
  "in_flight (setLanguage T lang s) = in_flight s"
  "persisted (setLanguage T lang s) = persisted s"
  "currentSettings (setLanguage T lang s) = currentSettings s"
  "el_value (document (setLanguage T lang s) i) = el_value (document s i)"
  "el_type (document (setLanguage T lang s) i) = el_type (document s i)"
  "classList (document (setLanguage T lang s) i) = classList (document s i)"
  "checked (document (setLanguage T lang s) i) = checked (document s i)"
  by (simp_all add: setLanguage_def split: option.splits)

subsection \<open>The base URL\<close>

lemma regex_slashes_to_end_at_iff:
  "regex_slashes_to_end_at s \<longleftrightarrow> s \<noteq> [] \<and> (\<forall>c\<in>set s. c = CHR ''/'')"
proof -
  have "drop (length (takeWhile (\<lambda>c. c = CHR ''/'') s)) s = dropWhile (\<lambda>c. c = CHR ''/'') s"
    by (simp add: dropWhile_eq_drop)
  moreover have "takeWhile (\<lambda>c. c = CHR ''/'') s \<noteq> [] \<longleftrightarrow> s \<noteq> [] \<and> hd s = CHR ''/''"
    by (cases s) auto
  ultimately show ?thesis
    unfolding regex_slashes_to_end_at_def Let_def
    by (cases s) (auto simp: dropWhile_eq_Nil_conv)
qed

lemma replace_trailing_slashes_spec:
  "replace_trailing_slashes s = strip_trailing_slashes_spec s"
proof (induction s)
  case Nil
  show ?case by (simp add: strip_trailing_slashes_spec_def)
next
  case (Cons c cs)
  show ?case
  proof (cases "\<forall>x\<in>set cs. x = CHR ''/''")
    case True
    then have "strip_trailing_slashes_spec cs = []"
      by (simp add: strip_trailing_slashes_spec_def dropWhile_eq_Nil_conv)
    with True Cons show ?thesis
      by (simp add: regex_slashes_to_end_at_iff strip_trailing_slashes_spec_def dropWhile_append)
  next
    case False
    with Cons show ?thesis
      by (auto simp: regex_slashes_to_end_at_iff strip_trailing_slashes_spec_def dropWhile_append)
  qed
qed

lemma strip_id: "s = [] \<or> last s \<noteq> CHR ''/'' \<Longrightarrow> strip_trailing_slashes_spec s = s"
  by (cases s rule: rev_cases) (auto simp: strip_trailing_slashes_spec_def)

lemma rev_takeWhile_slash:
  "(\<forall>c\<in>set xs. c = CHR ''/'') \<Longrightarrow> xs = replicate (length xs) (CHR ''/'')"
  by (induction xs) auto

lemma strip_decomp: "\<exists>n. s = strip_trailing_slashes_spec s @ replicate n (CHR ''/'')"
proof -
  let ?P = "\<lambda>c. c = CHR ''/''"
  have "rev s = takeWhile ?P (rev s) @ dropWhile ?P (rev s)"
    by simp
  then have "rev (rev s) = rev (takeWhile ?P (rev s) @ dropWhile ?P (rev s))"
    by simp
  then have a: "s = rev (dropWhile ?P (rev s)) @ rev (takeWhile ?P (rev s))"
    by (simp only: rev_rev_ident rev_append)
  have "\<forall>c\<in>set (rev (takeWhile ?P (rev s))). c = CHR ''/''"
    by (auto dest: set_takeWhileD)
  then have "rev (takeWhile ?P (rev s)) = replicate (length (rev (takeWhile ?P (rev s)))) (CHR ''/'')"
    by (rule rev_takeWhile_slash)
  with a show ?thesis unfolding strip_trailing_slashes_spec_def by metis
qed

lemma strip_no_trailing:
  "strip_trailing_slashes_spec s = [] \<or> last (strip_trailing_slashes_spec s) \<noteq> CHR ''/''"
proof (cases "dropWhile (\<lambda>c. c = CHR ''/'') (rev s)")
  case Nil
  then show ?thesis by (simp add: strip_trailing_slashes_spec_def)
next
  case (Cons a as)
  then have "a \<noteq> CHR ''/''"
    using hd_dropWhile[of "\<lambda>c. c = CHR ''/''" "rev s"] by auto
  with Cons show ?thesis by (simp add: strip_trailing_slashes_spec_def)
qed

lemma loadDashboard_installs:
  "serverUrl \<noteq> [] \<Longrightarrow> token \<noteq> [] \<Longrightarrow>
   iframe_onload (loadDashboard serverUrl token s) = Some (replace_trailing_slashes serverUrl, token)"
  by (simp add: loadDashboard_def Let_def emit_def)

lemma iframe_load_src:
  "iframe_onload s = Some (b, tok) \<Longrightarrow> iframe_src (iframe_load out s) = b"
  by (simp add: iframe_load_def onFirstLoad_def Let_def emit_def classList_remove_def update_el_def
      split: storage_outcome.splits)

lemma iframe_load_storage_ok:
  "iframe_onload s = Some (b, tok) \<Longrightarrow>
   localStorage (iframe_load StorageOk s) ''hassTokens'' = Some (JSON_stringify (hassTokens b tok))"
  by (simp add: iframe_load_def onFirstLoad_def Let_def emit_def classList_remove_def update_el_def)

text \<open>
  C6: the base URL that \<^verbatim>\<open>loadDashboard\<close> computes is the server URL with every trailing slash
  removed, the server URL itself when it does not end in a slash, and it is the URL that the
  load handler captures, writes into the credential and navigates to.
\<close>

theorem base_url_strips_trailing_slashes:
  "replace_trailing_slashes serverUrl = strip_trailing_slashes_spec serverUrl \<and>
   (serverUrl = [] \<or> last serverUrl \<noteq> CHR ''/'' \<longrightarrow>
      replace_trailing_slashes serverUrl = serverUrl) \<and>
   (\<exists>n. serverUrl = replace_trailing_slashes serverUrl @ replicate n (CHR ''/'')) \<and>
   (replace_trailing_slashes serverUrl = [] \<or>
    last (replace_trailing_slashes serverUrl) \<noteq> CHR ''/'') \<and>
   (serverUrl \<noteq> [] \<and> token \<noteq> [] \<longrightarrow>
      iframe_onload (loadDashboard serverUrl token s) =
        Some (strip_trailing_slashes_spec serverUrl, token) \<and>
      iframe_src (iframe_load out (loadDashboard serverUrl token s)) =
        strip_trailing_slashes_spec serverUrl \<and>
      localStorage (iframe_load StorageOk (loadDashboard serverUrl token s)) ''hassTokens'' =
        Some (JSON_stringify (hassTokens (strip_trailing_slashes_spec serverUrl) token)))"
proof -
  have eq: "replace_trailing_slashes serverUrl = strip_trailing_slashes_spec serverUrl"
    by (rule replace_trailing_slashes_spec)
  have "serverUrl \<noteq> [] \<and> token \<noteq> [] \<longrightarrow>
      iframe_onload (loadDashboard serverUrl token s) =
        Some (strip_trailing_slashes_spec serverUrl, token)"
    using loadDashboard_installs[of serverUrl token s] eq by simp
  then show ?thesis
    using eq strip_id[of serverUrl] strip_decomp[of serverUrl] strip_no_trailing[of serverUrl]
      iframe_load_src[of "loadDashboard serverUrl token s" "strip_trailing_slashes_spec serverUrl" token out]
      iframe_load_storage_ok[of "loadDashboard serverUrl token s" "strip_trailing_slashes_spec serverUrl" token]
    by auto
qed

theorem base_url_strips_trailing_slashes_witness:
  "replace_trailing_slashes ''http://ha.local:8123//'' = ''http://ha.local:8123'' \<and>
   replace_trailing_slashes ''http://ha.local:8123'' = ''http://ha.local:8123'' \<and>
   iframe_onload (loadDashboard ''http://ha.local:8123//'' ''abc'' (initial (\<lambda>i. blank_element))) =
     Some (''http://ha.local:8123'', ''abc'') \<and>
   iframe_src (iframe_load StorageOk
     (loadDashboard ''http://ha.local:8123//'' ''abc'' (initial (\<lambda>i. blank_element)))) =
     ''http://ha.local:8123''"
proof -
  let ?u = "''http://ha.local:8123//''"
  let ?s = "initial (\<lambda>i. blank_element)"
  note A = base_url_strips_trailing_slashes [of ?u "''abc''" ?s StorageOk]
  note B = base_url_strips_trailing_slashes [of "''http://ha.local:8123''" "''abc''" ?s StorageOk]
  have v: "strip_trailing_slashes_spec ?u = ''http://ha.local:8123''"
    by (simp add: strip_trailing_slashes_spec_def)
  have n: "?u \<noteq> [] \<and> ''abc'' \<noteq> []" by simp
  have l: "''http://ha.local:8123'' = [] \<or> last ''http://ha.local:8123'' \<noteq> CHR ''/''"
    by simp
  have a: "replace_trailing_slashes ?u = ''http://ha.local:8123''"
    using A [THEN conjunct1] v by (simp only:)
  have b: "replace_trailing_slashes ''http://ha.local:8123'' = ''http://ha.local:8123''"
    using B [THEN conjunct2, THEN conjunct1] l by (rule mp)
  have c: "iframe_onload (loadDashboard ?u ''abc'' ?s) =
             Some (strip_trailing_slashes_spec ?u, ''abc'') \<and>
           iframe_src (iframe_load StorageOk (loadDashboard ?u ''abc'' ?s)) =
             strip_trailing_slashes_spec ?u \<and>
           localStorage (iframe_load StorageOk (loadDashboard ?u ''abc'' ?s)) ''hassTokens'' =
             Some (JSON_stringify (hassTokens (strip_trailing_slashes_spec ?u) ''abc''))"
    using A [THEN conjunct2, THEN conjunct2, THEN conjunct2, THEN conjunct2] n by (rule mp)
  from a b c [THEN conjunct1] c [THEN conjunct2, THEN conjunct1] show ?thesis
    by (simp only: v simp_thms)
qed

subsection \<open>The functions of \<^verbatim>\<open>main.js\<close>\<close>

lemma loadDashboard_trace:
  "trace (loadDashboard serverUrl token s) =
     trace s @ (if serverUrl = [] \<or> token = [] then [] else [AssignSrc ToBlank ''about:blank''])"
  by (simp add: loadDashboard_def Let_def dom_ops)

lemma loadDashboard_onload:
  "iframe_onload (loadDashboard serverUrl token s) =
     (if serverUrl = [] \<or> token = [] then iframe_onload s
      else Some (replace_trailing_slashes serverUrl, token))"
  by (simp add: loadDashboard_def Let_def dom_ops)

lemma loadDashboard_src:
  "iframe_src (loadDashboard serverUrl token s) =
     (if serverUrl = [] \<or> token = [] then iframe_src s else ''about:blank'')"
  by (simp add: loadDashboard_def Let_def dom_ops)

lemma loadDashboard_storage [simp]:
  "localStorage (loadDashboard serverUrl token s) = localStorage s"
  by (simp add: loadDashboard_def Let_def dom_ops)

lemma iframe_load_trace:
  "trace (iframe_load out s) =
     trace s @ LoadFired #
       (case iframe_onload s of
          None \<Rightarrow> []
        | Some (b, tok) \<Rightarrow>
            (case out of
               StorageOk \<Rightarrow> [SetItem ''hassTokens'' (JSON_stringify (hassTokens b tok))]
             | StorageThrows e \<Rightarrow>
                 [SetItemThrew e,
                  ConsoleWarn [''Could not inject tokens into iframe localStorage:'', e]])
            @ [AssignSrc ToDashboard b])"
  by (simp add: iframe_load_def onFirstLoad_def Let_def dom_ops
      split: option.splits storage_outcome.splits)

lemma iframe_load_onload [simp]: "iframe_onload (iframe_load out s) = None"
  by (simp add: iframe_load_def onFirstLoad_def Let_def dom_ops
      split: option.splits storage_outcome.splits)

lemma iframe_load_storage:
  "localStorage (iframe_load out s) =
     (case iframe_onload s of
        None \<Rightarrow> localStorage s
      | Some (b, tok) \<Rightarrow>
          (case out of
             StorageOk \<Rightarrow> (localStorage s)(''hassTokens'' \<mapsto> JSON_stringify (hassTokens b tok))
           | StorageThrows e \<Rightarrow> localStorage s))"
  by (simp add: iframe_load_def onFirstLoad_def Let_def dom_ops
      split: option.splits storage_outcome.splits)

lemma iframe_load_shows:
  "iframe_onload s = Some (b, tok) \<Longrightarrow> \<not> is_hidden ''dashboard-container'' (iframe_load out s)"
  by (simp add: iframe_load_def onFirstLoad_def Let_def dom_ops is_hidden_def
      split: option.splits storage_outcome.splits)

lemma showSetupScreen_fields [simp]:
  "trace (showSetupScreen s) = trace s"
  "iframe_src (showSetupScreen s) = iframe_src s"
  "iframe_onload (showSetupScreen s) = iframe_onload s"
  "localStorage (showSetupScreen s) = localStorage s"
  by (simp_all add: showSetupScreen_def dom_ops)

lemma showSetupScreen_shown:
  "\<not> is_hidden ''setup-screen'' (showSetupScreen s)"
  "is_hidden ''dashboard-container'' (showSetupScreen s)"
  by (simp_all add: showSetupScreen_def dom_ops is_hidden_def)

lemma initApp_trace:
  "trace (initApp T r s) =
     trace s @ Invoke Get_settings #
       (case r of
          Inl err \<Rightarrow> [ConsoleError [''Failed to initialize app:'', err]]
        | Inr st \<Rightarrow>
            (case translation_table T (if language st = [] then ''en'' else language st) of
               None \<Rightarrow> [ConsoleWarn [''Language '' @ [CHR 0x27] @ language st @ [CHR 0x27] @
                                      '' not supported, falling back to '' @
                                      [CHR 0x27] @ ''en'' @ [CHR 0x27]]]
             | Some l \<Rightarrow> [])
            @ (if server_url st \<noteq> [] \<and> access_token st \<noteq> [] \<and> is_registered st
               then [AssignSrc ToBlank ''about:blank''] else []))"
  by (auto simp add: initApp_def Let_def dom_ops setLanguage_trace loadDashboard_trace translation_table_def
      split: sum.splits option.splits)

lemma initApp_onload:
  "iframe_onload (initApp T r s) =
     (case r of
        Inl err \<Rightarrow> iframe_onload s
      | Inr st \<Rightarrow>
          if server_url st \<noteq> [] \<and> access_token st \<noteq> [] \<and> is_registered st
          then Some (replace_trailing_slashes (server_url st), access_token st)
          else iframe_onload s)"
  by (simp add: initApp_def Let_def dom_ops loadDashboard_onload split: sum.splits)

lemma initApp_src:
  "iframe_src (initApp T r s) =
     (case r of
        Inl err \<Rightarrow> iframe_src s
      | Inr st \<Rightarrow>
          if server_url st \<noteq> [] \<and> access_token st \<noteq> [] \<and> is_registered st
          then ''about:blank'' else iframe_src s)"
  by (simp add: initApp_def Let_def dom_ops loadDashboard_src split: sum.splits)

lemma initApp_setup_shown:
  "(case r of Inl err \<Rightarrow> True
    | Inr st \<Rightarrow> server_url st = [] \<or> access_token st = [] \<or> \<not> is_registered st) \<Longrightarrow>
   \<not> is_hidden ''setup-screen'' (initApp T r s) \<and> is_hidden ''dashboard-container'' (initApp T r s)"
  by (auto simp add: initApp_def Let_def dom_ops is_hidden_def showSetupScreen_def split: sum.splits)

lemma handleSetup_trace:
  "trace (handleSetup r1 r2 s) =
     trace s @ Invoke (Save_settings
        \<lparr>arg_serverUrl = trim (el_value (document s ''setup-server-url'')),
         arg_accessToken = trim (el_value (document s ''setup-token'')),
         arg_updateInterval = Exact 60, arg_language = currentLanguage s,
         arg_autostart = False\<rparr>) #
       (case r1 of
          Inl err \<Rightarrow> []
        | Inr u \<Rightarrow> Invoke Register_device #
            (case r2 of
               Inl err \<Rightarrow> []
             | Inr u' \<Rightarrow>
                 if trim (el_value (document s ''setup-server-url'')) = [] \<or>
                    trim (el_value (document s ''setup-token'')) = [] then []
                 else [AssignSrc ToBlank ''about:blank'']))"
  by (simp add: handleSetup_def Let_def dom_ops loadDashboard_trace hideSetupScreen_def
      split: sum.splits)

lemma handleSetup_onload:
  "iframe_onload (handleSetup r1 r2 s) =
     (case (r1, r2) of
        (Inr u, Inr u') \<Rightarrow>
          if trim (el_value (document s ''setup-server-url'')) = [] \<or>
             trim (el_value (document s ''setup-token'')) = [] then iframe_onload s
          else Some (replace_trailing_slashes (trim (el_value (document s ''setup-server-url''))),
                     trim (el_value (document s ''setup-token'')))
      | _ \<Rightarrow> iframe_onload s)"
  by (simp add: handleSetup_def Let_def dom_ops loadDashboard_onload hideSetupScreen_def
      split: sum.splits)

lemma handleSetup_src:
  "iframe_src (handleSetup r1 r2 s) =
     (case (r1, r2) of
        (Inr u, Inr u') \<Rightarrow>
          if trim (el_value (document s ''setup-server-url'')) = [] \<or>
             trim (el_value (document s ''setup-token'')) = [] then iframe_src s
          else ''about:blank''
      | _ \<Rightarrow> iframe_src s)"
  by (simp add: handleSetup_def Let_def dom_ops loadDashboard_src hideSetupScreen_def
      split: sum.splits)

subsection \<open>The functions of \<^verbatim>\<open>settings.js\<close>\<close>

lemma populateSensorList_trace:
  "trace (populateSensorList T r s) =
     trace s @ Invoke Get_sensor_list #
       (case r of Inl err \<Rightarrow> [ConsoleError [''Failed to load sensor list:'', err]]
        | Inr sensors \<Rightarrow> [])"
  by (simp add: populateSensorList_def Let_def split: sum.splits)

lemma populateSensorList_fields [simp]:
  "document (populateSensorList T r s) = document s"
  "iframe_src (populateSensorList T r s) = iframe_src s"
  "iframe_onload (populateSensorList T r s) = iframe_onload s"
  "localStorage (populateSensorList T r s) = localStorage s"
  "currentSettings (populateSensorList T r s) = currentSettings s"
  "currentLanguage (populateSensorList T r s) = currentLanguage s"
  by (simp_all add: populateSensorList_def Let_def split: sum.splits)

lemma openSettings_trace:
  "trace (openSettings T r1 r2 s) =
     trace s @ Invoke Get_settings #
       (case r1 of
          Inl err \<Rightarrow> [ConsoleError [''Failed to load settings:'', err]]
        | Inr cs \<Rightarrow> Invoke Get_sensor_list #
            (case r2 of Inl err \<Rightarrow> [ConsoleError [''Failed to load sensor list:'', err]]
             | Inr sensors \<Rightarrow> []))"
  by (simp add: openSettings_def Let_def dom_ops populateSensorList_trace split: sum.splits)

lemma openSettings_frame [simp]:
  "iframe_src (openSettings T r1 r2 s) = iframe_src s"
  "iframe_onload (openSettings T r1 r2 s) = iframe_onload s"
  "localStorage (openSettings T r1 r2 s) = localStorage s"
  by (simp_all add: openSettings_def Let_def dom_ops split: sum.splits)

lemma closeSettings_trace:
  "trace (closeSettings r s) =
     trace s @ Invoke Load_dashboard #
       (case r of Inl err \<Rightarrow> [ConsoleError [''Failed to restore dashboard:'', err]]
        | Inr u \<Rightarrow> [])"
  by (simp add: closeSettings_def Let_def dom_ops split: sum.splits)

lemma closeSettings_frame [simp]:
  "iframe_src (closeSettings r s) = iframe_src s"
  "iframe_onload (closeSettings r s) = iframe_onload s"
  "localStorage (closeSettings r s) = localStorage s"
  by (simp_all add: closeSettings_def Let_def dom_ops split: sum.splits)

lemma saveSettings_trace:
  "trace (saveSettings T r1 r2 s) =
     trace s @ Invoke (Save_settings (saveSettings_args s)) #
       (case r1 of
          Inl err \<Rightarrow> [ConsoleError [''Failed to save settings:'', err],
                      Alert (''Failed to save settings: '' @ err)]
        | Inr u \<Rightarrow>
            (case translation_table T (el_value (document s ''settings-language'')) of
               None \<Rightarrow> [ConsoleWarn [''Language '' @ [CHR 0x27] @
                                      el_value (document s ''settings-language'') @ [CHR 0x27] @
                                      '' not supported, falling back to '' @
                                      [CHR 0x27] @ ''en'' @ [CHR 0x27]]]
             | Some l \<Rightarrow> [])
            @ Invoke Load_dashboard #
              (case r2 of Inl err \<Rightarrow> [ConsoleError [''Failed to restore dashboard:'', err]]
               | Inr u' \<Rightarrow> []))"
  by (simp add: saveSettings_def Let_def closeSettings_trace setLanguage_trace saveSettings_args_def
      split: sum.splits option.splits)

lemma saveSettings_frame [simp]:
  "iframe_src (saveSettings T r1 r2 s) = iframe_src s"
  "iframe_onload (saveSettings T r1 r2 s) = iframe_onload s"
  "localStorage (saveSettings T r1 r2 s) = localStorage s"
  by (simp_all add: saveSettings_def Let_def split: sum.splits)

lemma togglePassword_fields [simp]:
  "trace (togglePassword i s) = trace s"
  "iframe_src (togglePassword i s) = iframe_src s"
  "iframe_onload (togglePassword i s) = iframe_onload s"
  "localStorage (togglePassword i s) = localStorage s"
  by (simp_all add: togglePassword_def)

lemma checkbox_change_trace:
  "trace (checkbox_change i s) =
     trace s @ (if i < length (sensor_rows s)
                then [Invoke (Toggle_sensor (row_sensor (sensor_rows s ! i))
                                (\<not> row_checked (sensor_rows s ! i)))]
                else [])"
  by (simp add: checkbox_change_def Let_def)

lemma checkbox_change_frame [simp]:
  "iframe_src (checkbox_change i s) = iframe_src s"
  "iframe_onload (checkbox_change i s) = iframe_onload s"
  "localStorage (checkbox_change i s) = localStorage s"
  "document (checkbox_change i s) = document s"
  by (simp_all add: checkbox_change_def Let_def)

lemma toggle_settled_trace:
  "trace (toggle_settled r s) =
     trace s @ (case in_flight s of
                  [] \<Rightarrow> []
                | call # rest \<Rightarrow>
                    (case r of Inl err \<Rightarrow> [ConsoleError [''Failed to toggle sensor:'', err]]
                     | Inr u \<Rightarrow> []))"
  by (simp add: toggle_settled_def Let_def split: list.splits sum.splits prod.splits)

lemma toggle_settled_frame [simp]:
  "iframe_src (toggle_settled r s) = iframe_src s"
  "iframe_onload (toggle_settled r s) = iframe_onload s"
  "localStorage (toggle_settled r s) = localStorage s"
  "document (toggle_settled r s) = document s"
  by (simp_all add: toggle_settled_def Let_def split: list.splits sum.splits prod.splits)

lemma set_value_frame [simp]:
  "trace (set_value i v s) = trace s"
  "iframe_src (set_value i v s) = iframe_src s"
  "iframe_onload (set_value i v s) = iframe_onload s"
  "localStorage (set_value i v s) = localStorage s"
  by (simp_all add: set_value_def)

lemma closeSettings_frame_fields [simp]:
  "trace (closeSettings_frame s) = trace s"
  "iframe_src (closeSettings_frame s) = iframe_src s"
  "iframe_onload (closeSettings_frame s) = iframe_onload s"
  "localStorage (closeSettings_frame s) = localStorage s"
  by (simp_all add: closeSettings_frame_def dom_ops)

text \<open>
  Whether \<^verbatim>\<open>saveSettings\<close> of the version with the frame calls \<^verbatim>\<open>loadDashboard\<close>, and gets
  past its guard: the save succeeded, settings were loaded before, the server URL of the
  field is another one, and neither it nor the token is empty.
\<close>

lemma saveSettings_frame_trace:
  "trace (saveSettings_frame T r s) =
     trace s @ Invoke (Save_settings (saveSettings_args s)) #
       (case r of
          Inl err \<Rightarrow> [ConsoleError [''Failed to save settings:'', err],
                      Alert (''Failed to save settings: '' @ err)]
        | Inr u \<Rightarrow>
            (case translation_table T (el_value (document s ''settings-language'')) of
               None \<Rightarrow> [ConsoleWarn [''Language '' @ [CHR 0x27] @
                                      el_value (document s ''settings-language'') @ [CHR 0x27] @
                                      '' not supported, falling back to '' @
                                      [CHR 0x27] @ ''en'' @ [CHR 0x27]]]
             | Some l \<Rightarrow> [])
            @ (case currentSettings s of
                 None \<Rightarrow> []
               | Some cs \<Rightarrow>
                   if arg_serverUrl (saveSettings_args s) \<noteq> server_url cs \<and>
                      arg_serverUrl (saveSettings_args s) \<noteq> [] \<and>
                      arg_accessToken (saveSettings_args s) \<noteq> []
                   then [AssignSrc ToBlank ''about:blank''] else []))"
  by (simp add: saveSettings_frame_def Let_def setLanguage_trace saveSettings_args_def
      loadDashboard_trace split: sum.splits option.splits)

lemma saveSettings_frame_onload:
  "iframe_onload (saveSettings_frame T r s) =
     (case (r, currentSettings s) of
        (Inr u, Some cs) \<Rightarrow>
          if arg_serverUrl (saveSettings_args s) \<noteq> server_url cs \<and>
             arg_serverUrl (saveSettings_args s) \<noteq> [] \<and>
             arg_accessToken (saveSettings_args s) \<noteq> []
          then Some (replace_trailing_slashes (arg_serverUrl (saveSettings_args s)),
                     arg_accessToken (saveSettings_args s))
          else iframe_onload s
      | _ \<Rightarrow> iframe_onload s)"
  by (simp add: saveSettings_frame_def Let_def loadDashboard_onload
      split: sum.splits option.splits)

lemma saveSettings_frame_src:
  "iframe_src (saveSettings_frame T r s) =
     (case (r, currentSettings s) of
        (Inr u, Some cs) \<Rightarrow>
          if arg_serverUrl (saveSettings_args s) \<noteq> server_url cs \<and>
             arg_serverUrl (saveSettings_args s) \<noteq> [] \<and>
             arg_accessToken (saveSettings_args s) \<noteq> []
          then ''about:blank'' else iframe_src s
      | _ \<Rightarrow> iframe_src s)"
  by (simp add: saveSettings_frame_def Let_def loadDashboard_src
      split: sum.splits option.splits)

subsection \<open>Sequencing of the bootstrap\<close>

lemma navigations_follow_append:
  "navigations_follow P before (xs @ ys) =
     (navigations_follow P before xs \<and> navigations_follow P (rev xs @ before) ys)"
proof (induction xs arbitrary: before)
  case Nil
  show ?case by simp
next
  case (Cons x xs)
  show ?case
  proof (cases x)
    case (AssignSrc k u)
    then show ?thesis using Cons by (cases k) auto
  qed (use Cons in auto)
qed

lemma navigations_follow_none:
  "(\<forall>u. AssignSrc ToDashboard u \<notin> set c) \<Longrightarrow> navigations_follow P before c"
proof (induction c arbitrary: before)
  case Nil
  show ?case by simp
next
  case (Cons x xs)
  then have "navigations_follow P (x # before) xs" by simp
  with Cons.prems show ?case
  proof (cases x)
    case (AssignSrc k u)
    with Cons.prems \<open>navigations_follow P (x # before) xs\<close> show ?thesis by (cases k) auto
  qed auto
qed

lemma quiet_no_navigation:
  "list_all quiet c \<Longrightarrow> \<forall>u. AssignSrc ToDashboard u \<notin> set c"
  by (auto simp: list_all_iff)

lemma blank_awaited_quiet:
  "list_all quiet c \<Longrightarrow> blank_awaited (rev c @ before) = blank_awaited before"
proof (induction c arbitrary: before)
  case Nil
  show ?case by simp
next
  case (Cons x xs)
  then have "blank_awaited (rev xs @ x # before) = blank_awaited (x # before)" by simp
  moreover from Cons.prems have "blank_awaited (x # before) = blank_awaited before"
    by (cases x) simp_all
  ultimately show ?case by simp
qed

text \<open>
  Every event but the load event of the frame appends effects that are quiet, with at most
  the assignment of the blank page as the last one; and it installs a load handler only
  together with that assignment.
\<close>

lemma step_appends:
  assumes "\<forall>out. e \<noteq> IframeLoad out"
  shows "\<exists>c. trace (step T e s) = trace s @ c \<and>
           (list_all quiet c \<and> iframe_onload (step T e s) = iframe_onload s \<and>
              iframe_src (step T e s) = iframe_src s \<or>
            (\<exists>c'. c = c' @ [AssignSrc ToBlank ''about:blank''] \<and> list_all quiet c') \<and>
              iframe_src (step T e s) = ''about:blank'')"
proof (cases e)
  case (InitApp r)
  then show ?thesis
    by (auto simp: initApp_trace initApp_onload initApp_src split: sum.splits option.splits)
next
  case (HandleSetup r1 r2)
  then show ?thesis
    by (auto simp: handleSetup_trace handleSetup_onload handleSetup_src split: sum.splits)
next
  case (LoadDashboard u tok)
  then show ?thesis
    by (auto simp: loadDashboard_trace loadDashboard_onload loadDashboard_src)
next
  case (IframeLoad out)
  with assms show ?thesis by simp
next
  case (OpenSettings r1 r2)
  then show ?thesis by (auto simp: openSettings_trace split: sum.splits)
next
  case (CloseSettings r)
  then show ?thesis by (auto simp: closeSettings_trace split: sum.splits)
next
  case (SaveSettings r1 r2)
  then show ?thesis by (auto simp: saveSettings_trace split: sum.splits option.splits)
next
  case (TogglePassword i)
  then show ?thesis by simp
next
  case (CheckboxChange i)
  then show ?thesis by (auto simp: checkbox_change_trace)
next
  case (ToggleSettled r)
  then show ?thesis by (auto simp: toggle_settled_trace split: list.splits sum.splits)
next
  case (UserTypes i v)
  then show ?thesis by simp
next
  case CloseSettingsFrame
  then show ?thesis by simp
next
  case (SaveSettingsFrame r)
  then show ?thesis
    by (auto simp: saveSettings_frame_trace saveSettings_frame_onload saveSettings_frame_src
        split: sum.splits option.splits)
qed

text \<open>
  What a run keeps: the sequencing of the trace so far, and, while a load handler is
  installed, that the frame points at the blank page and its load event is awaited.
\<close>

lemma step_keeps_sequencing:
  assumes nf: "navigations_follow P [] (trace s)"
    and blank: "iframe_onload s \<noteq> None \<longrightarrow>
                  blank_awaited (rev (trace s)) \<and> iframe_src s = ''about:blank''"
    and ok: "\<And>v before. blank_awaited before \<Longrightarrow>
               P (SetItem ''hassTokens'' v # LoadFired # before)"
    and threw: "\<And>x before. e = IframeLoad (StorageThrows x) \<Longrightarrow> blank_awaited before \<Longrightarrow>
               P (ConsoleWarn [''Could not inject tokens into iframe localStorage:'', x] #
                  SetItemThrew x # LoadFired # before)"
  shows "navigations_follow P [] (trace (step T e s)) \<and>
         (iframe_onload (step T e s) \<noteq> None \<longrightarrow>
            blank_awaited (rev (trace (step T e s))) \<and> iframe_src (step T e s) = ''about:blank'')"
proof (cases "\<exists>out. e = IframeLoad out")
  case False
  then obtain c where c: "trace (step T e s) = trace s @ c"
      and d: "list_all quiet c \<and> iframe_onload (step T e s) = iframe_onload s \<and>
              iframe_src (step T e s) = iframe_src s \<or>
            (\<exists>c'. c = c' @ [AssignSrc ToBlank ''about:blank''] \<and> list_all quiet c') \<and>
              iframe_src (step T e s) = ''about:blank''"
    using step_appends[of e T s] by blast
  from d have "\<forall>u. AssignSrc ToDashboard u \<notin> set c"
  proof
    assume "list_all quiet c \<and> iframe_onload (step T e s) = iframe_onload s \<and>
              iframe_src (step T e s) = iframe_src s"
    then show ?thesis using quiet_no_navigation[of c] by simp
  next
    assume "(\<exists>c'. c = c' @ [AssignSrc ToBlank ''about:blank''] \<and> list_all quiet c') \<and>
              iframe_src (step T e s) = ''about:blank''"
    then obtain c' where "c = c' @ [AssignSrc ToBlank ''about:blank'']" "list_all quiet c'"
      by blast
    with quiet_no_navigation[of c'] show ?thesis by simp
  qed
  then have "navigations_follow P (rev (trace s) @ []) c"
    by (rule navigations_follow_none)
  with nf c have n: "navigations_follow P [] (trace (step T e s))"
    by (simp add: navigations_follow_append)
  from d have "iframe_onload (step T e s) \<noteq> None \<longrightarrow>
            blank_awaited (rev (trace (step T e s))) \<and> iframe_src (step T e s) = ''about:blank''"
  proof
    assume q: "list_all quiet c \<and> iframe_onload (step T e s) = iframe_onload s \<and>
              iframe_src (step T e s) = iframe_src s"
    then have "blank_awaited (rev c @ rev (trace s)) = blank_awaited (rev (trace s))"
      by (simp add: blank_awaited_quiet)
    with q c blank show ?thesis by simp
  next
    assume "(\<exists>c'. c = c' @ [AssignSrc ToBlank ''about:blank''] \<and> list_all quiet c') \<and>
              iframe_src (step T e s) = ''about:blank''"
    then obtain c' where c': "c = c' @ [AssignSrc ToBlank ''about:blank'']" "list_all quiet c'"
        and src: "iframe_src (step T e s) = ''about:blank''"
      by blast
    have "blank_awaited (rev c' @ AssignSrc ToBlank ''about:blank'' # rev (trace s))"
      using c'(2) by (simp add: blank_awaited_quiet)
    with c c'(1) src show ?thesis by simp
  qed
  with n show ?thesis by simp
next
  case True
  then obtain out where e: "e = IframeLoad out" by blast
  show ?thesis
  proof (cases "iframe_onload s")
    case None
    with e nf show ?thesis
      by (simp add: iframe_load_trace navigations_follow_append)
  next
    case (Some h)
    obtain b tok where h: "h = (b, tok)" by (cases h)
    from Some blank have bl: "blank_awaited (rev (trace s))"
      by simp
    show ?thesis
    proof (cases out)
      case StorageOk
      with e Some h nf ok[OF bl] show ?thesis
        by (simp add: iframe_load_trace navigations_follow_append)
    next
      case (StorageThrows x)
      with e have "e = IframeLoad (StorageThrows x)" by simp
      from threw[OF this bl] e Some h nf StorageThrows show ?thesis
        by (simp add: iframe_load_trace navigations_follow_append)
    qed
  qed
qed

lemma run_keeps_sequencing:
  assumes ok: "\<And>v before. blank_awaited before \<Longrightarrow>
               P (SetItem ''hassTokens'' v # LoadFired # before)"
    and threw: "\<And>x before. IframeLoad (StorageThrows x) \<in> set evs \<Longrightarrow>
               blank_awaited before \<Longrightarrow>
               P (ConsoleWarn [''Could not inject tokens into iframe localStorage:'', x] #
                  SetItemThrew x # LoadFired # before)"
    and nf: "navigations_follow P [] (trace s)"
    and blank: "iframe_onload s \<noteq> None \<longrightarrow>
                  blank_awaited (rev (trace s)) \<and> iframe_src s = ''about:blank''"
  shows "navigations_follow P [] (trace (run T evs s)) \<and>
         (iframe_onload (run T evs s) \<noteq> None \<longrightarrow>
            blank_awaited (rev (trace (run T evs s))) \<and>
            iframe_src (run T evs s) = ''about:blank'')"
  using threw nf blank
proof (induction evs arbitrary: s)
  case Nil
  then show ?case by simp
next
  case (Cons e evs)
  have "navigations_follow P [] (trace (step T e s)) \<and>
         (iframe_onload (step T e s) \<noteq> None \<longrightarrow>
            blank_awaited (rev (trace (step T e s))) \<and> iframe_src (step T e s) = ''about:blank'')"
    using Cons.prems(2,3) ok Cons.prems(1)
    by (intro step_keeps_sequencing) auto
  then show ?case
    using Cons.IH[of "step T e s"] Cons.prems(1) by simp
qed

text \<open>
  C1: in every run of the page from its initial state, a navigation to the dashboard comes
  only directly after an injection attempt that has finished (the write of \<^verbatim>\<open>hassTokens\<close>
  returned, or it threw and the exception was caught and logged), which comes directly after
  a load event of the frame; and that load event is the one of the blank page: the latest
  assignment to \<^verbatim>\<open>iframe.src\<close> before it is the blank page, with no load event in between.
  In a run in which no write throws, every navigation comes after a write that returned.
  Whenever a load handler is installed, the frame points at the blank page and the load
  event of that page is still awaited.
\<close>

theorem navigation_follows_finished_attempt:
  "navigations_follow attempt_finished [] (trace (run T evs (initial d))) \<and>
   ((\<forall>x. IframeLoad (StorageThrows x) \<notin> set evs) \<longrightarrow>
      navigations_follow injection_returned [] (trace (run T evs (initial d)))) \<and>
   (iframe_onload (run T evs (initial d)) \<noteq> None \<longrightarrow>
      blank_awaited (rev (trace (run T evs (initial d)))) \<and>
      iframe_src (run T evs (initial d)) = ''about:blank'')"
proof (intro conjI)
  have "navigations_follow attempt_finished [] (trace (run T evs (initial d))) \<and>
         (iframe_onload (run T evs (initial d)) \<noteq> None \<longrightarrow>
            blank_awaited (rev (trace (run T evs (initial d)))) \<and>
            iframe_src (run T evs (initial d)) = ''about:blank'')"
    by (rule run_keeps_sequencing) (simp_all add: initial_def)
  then show "navigations_follow attempt_finished [] (trace (run T evs (initial d)))"
    and "iframe_onload (run T evs (initial d)) \<noteq> None \<longrightarrow>
      blank_awaited (rev (trace (run T evs (initial d)))) \<and>
      iframe_src (run T evs (initial d)) = ''about:blank''"
    by simp_all
next
  show "(\<forall>x. IframeLoad (StorageThrows x) \<notin> set evs) \<longrightarrow>
      navigations_follow injection_returned [] (trace (run T evs (initial d)))"
  proof
    assume a: "\<forall>x. IframeLoad (StorageThrows x) \<notin> set evs"
    have "navigations_follow injection_returned [] (trace (run T evs (initial d))) \<and>
         (iframe_onload (run T evs (initial d)) \<noteq> None \<longrightarrow>
            blank_awaited (rev (trace (run T evs (initial d)))) \<and>
            iframe_src (run T evs (initial d)) = ''about:blank'')"
      using a by (intro run_keeps_sequencing) (simp_all add: initial_def)
    then show "navigations_follow injection_returned [] (trace (run T evs (initial d)))"
      by simp
  qed
qed

theorem navigation_follows_finished_attempt_witness:
  "(\<forall>x. IframeLoad (StorageThrows x) \<notin>
         set [LoadDashboard ''http://ha.local:8123/'' ''abc'', IframeLoad StorageOk]) \<and>
   navigations_follow injection_returned []
     (trace (run no_tables [LoadDashboard ''http://ha.local:8123/'' ''abc'', IframeLoad StorageOk]
               (initial (\<lambda>i. blank_element)))) \<and>
   navigations_follow attempt_finished []
     (trace (run no_tables [LoadDashboard ''http://ha.local:8123/'' ''abc'',
                            IframeLoad (StorageThrows ''SecurityError'')]
               (initial (\<lambda>i. blank_element)))) \<and>
   iframe_onload (run no_tables [LoadDashboard ''http://ha.local:8123/'' ''abc'']
                    (initial (\<lambda>i. blank_element))) \<noteq> None \<and>
   iframe_src (run no_tables [LoadDashboard ''http://ha.local:8123/'' ''abc'']
                 (initial (\<lambda>i. blank_element))) = ''about:blank''"
proof -
  have h: "\<forall>x. IframeLoad (StorageThrows x) \<notin>
         set [LoadDashboard ''http://ha.local:8123/'' ''abc'', IframeLoad StorageOk]"
    by simp
  note A = navigation_follows_finished_attempt
      [of no_tables "[LoadDashboard ''http://ha.local:8123/'' ''abc'', IframeLoad StorageOk]"
          "\<lambda>i. blank_element"]
  note B = navigation_follows_finished_attempt
      [of no_tables "[LoadDashboard ''http://ha.local:8123/'' ''abc'',
                      IframeLoad (StorageThrows ''SecurityError'')]" "\<lambda>i. blank_element"]
  note C = navigation_follows_finished_attempt
      [of no_tables "[LoadDashboard ''http://ha.local:8123/'' ''abc'']" "\<lambda>i. blank_element"]
  have i: "iframe_onload (run no_tables [LoadDashboard ''http://ha.local:8123/'' ''abc'']
                    (initial (\<lambda>i. blank_element))) \<noteq> None"
    by (simp add: loadDashboard_onload)
  from mp [OF A [THEN conjunct2, THEN conjunct1] h]
  have a: "navigations_follow injection_returned []
     (trace (run no_tables [LoadDashboard ''http://ha.local:8123/'' ''abc'', IframeLoad StorageOk]
               (initial (\<lambda>i. blank_element))))" .
  from mp [OF C [THEN conjunct2, THEN conjunct2] i]
  have c: "iframe_src (run no_tables [LoadDashboard ''http://ha.local:8123/'' ''abc'']
                 (initial (\<lambda>i. blank_element))) = ''about:blank''"
    by (rule conjunct2)
  from h a B [THEN conjunct1] i c show ?thesis by (intro conjI)
qed

theorem navigation_after_returned_injection_counterexample:
  "trace (run no_tables [LoadDashboard ''http://ha.local:8123/'' ''abc'',
                         IframeLoad (StorageThrows ''SecurityError'')]
            (initial (\<lambda>i. blank_element))) =
     [AssignSrc ToBlank ''about:blank'', LoadFired, SetItemThrew ''SecurityError'',
      ConsoleWarn [''Could not inject tokens into iframe localStorage:'', ''SecurityError''],
      AssignSrc ToDashboard ''http://ha.local:8123''] \<and>
   \<not> navigations_follow injection_returned []
       (trace (run no_tables [LoadDashboard ''http://ha.local:8123/'' ''abc'',
                              IframeLoad (StorageThrows ''SecurityError'')]
                 (initial (\<lambda>i. blank_element))))"
  by (simp add: iframe_load_trace loadDashboard_trace loadDashboard_onload initial_def
      regex_slashes_to_end_at_def)

text \<open>
  The sequencing predicates do not accept a navigation for which no blank page was assigned
  since the navigation before it.
\<close>

lemma second_navigation_needs_blank_page:
  "\<not> navigations_follow attempt_finished []
       [AssignSrc ToBlank ''about:blank'', LoadFired, SetItem ''hassTokens'' v,
        AssignSrc ToDashboard u, LoadFired, SetItem ''hassTokens'' v, AssignSrc ToDashboard u]"
  by simp

subsection \<open>Assignments to the frame and the failing write\<close>

lemma assigned_srcs_append [simp]:
  "assigned_srcs (xs @ ys) = assigned_srcs xs @ assigned_srcs ys"
proof (induction xs)
  case Nil
  show ?case by simp
next
  case (Cons x xs)
  then show ?case by (cases x) simp_all
qed

lemma commands_append [simp]: "commands (xs @ ys) = commands xs @ commands ys"
proof (induction xs)
  case Nil
  show ?case by simp
next
  case (Cons x xs)
  then show ?case by (cases x) simp_all
qed

lemma messages_append [simp]: "messages (xs @ ys) = messages xs @ messages ys"
  by (simp add: messages_def)

text \<open>What one event assigns to \<^verbatim>\<open>iframe.src\<close>.\<close>

lemma step_assigned_srcs:
  "assigned_srcs (trace (step T e s)) = assigned_srcs (trace s) \<or>
   assigned_srcs (trace (step T e s)) = assigned_srcs (trace s) @ [''about:blank''] \<or>
   (\<exists>out b tok. e = IframeLoad out \<and> iframe_onload s = Some (b, tok) \<and>
      assigned_srcs (trace (step T e s)) = assigned_srcs (trace s) @ [b])"
proof (cases e)
  case (InitApp r)
  then show ?thesis by (auto simp: initApp_trace split: sum.splits option.splits)
next
  case (HandleSetup r1 r2)
  then show ?thesis by (auto simp: handleSetup_trace split: sum.splits)
next
  case (LoadDashboard u tok)
  then show ?thesis by (auto simp: loadDashboard_trace)
next
  case (IframeLoad out)
  then show ?thesis
    by (cases out) (auto simp: iframe_load_trace split: option.splits)
next
  case (OpenSettings r1 r2)
  then show ?thesis by (auto simp: openSettings_trace split: sum.splits)
next
  case (CloseSettings r)
  then show ?thesis by (auto simp: closeSettings_trace split: sum.splits)
next
  case (SaveSettings r1 r2)
  then show ?thesis by (auto simp: saveSettings_trace split: sum.splits option.splits)
next
  case (TogglePassword i)
  then show ?thesis by simp
next
  case (CheckboxChange i)
  then show ?thesis by (auto simp: checkbox_change_trace)
next
  case (ToggleSettled r)
  then show ?thesis by (auto simp: toggle_settled_trace split: list.splits sum.splits)
next
  case (UserTypes i v)
  then show ?thesis by simp
next
  case CloseSettingsFrame
  then show ?thesis by simp
next
  case (SaveSettingsFrame r)
  then show ?thesis
    by (auto simp: saveSettings_frame_trace split: sum.splits option.splits)
qed

text \<open>
  C3: the bootstrap assigns to \<^verbatim>\<open>iframe.src\<close> the blank page and then the base URL, which is
  computed from the server URL alone; the assignments are the same whatever the token is.
  No event of the page assigns anything but the blank page or the base URL that the
  installed load handler holds.
\<close>

theorem token_never_in_assigned_url:
  "assigned_srcs (trace (loadDashboard serverUrl token s)) =
     assigned_srcs (trace s) @ (if serverUrl = [] \<or> token = [] then [] else [''about:blank'']) \<and>
   (serverUrl \<noteq> [] \<and> token \<noteq> [] \<longrightarrow>
      iframe_onload (loadDashboard serverUrl token s) =
        Some (replace_trailing_slashes serverUrl, token) \<and>
      assigned_srcs (trace (iframe_load out (loadDashboard serverUrl token s))) =
        assigned_srcs (trace s) @ [''about:blank'', replace_trailing_slashes serverUrl]) \<and>
   (serverUrl \<noteq> [] \<and> token \<noteq> [] \<and> token' \<noteq> [] \<longrightarrow>
      assigned_srcs (trace (iframe_load out (loadDashboard serverUrl token s))) =
      assigned_srcs (trace (iframe_load out' (loadDashboard serverUrl token' s)))) \<and>
   (assigned_srcs (trace (step T e s)) = assigned_srcs (trace s) \<or>
    assigned_srcs (trace (step T e s)) = assigned_srcs (trace s) @ [''about:blank''] \<or>
    (\<exists>out b tok. e = IframeLoad out \<and> iframe_onload s = Some (b, tok) \<and>
       assigned_srcs (trace (step T e s)) = assigned_srcs (trace s) @ [b]))"
proof (intro conjI)
  show "assigned_srcs (trace (step T e s)) = assigned_srcs (trace s) \<or>
    assigned_srcs (trace (step T e s)) = assigned_srcs (trace s) @ [''about:blank''] \<or>
    (\<exists>out b tok. e = IframeLoad out \<and> iframe_onload s = Some (b, tok) \<and>
       assigned_srcs (trace (step T e s)) = assigned_srcs (trace s) @ [b])"
    by (rule step_assigned_srcs)
qed (auto simp: loadDashboard_trace loadDashboard_onload iframe_load_trace
       split: storage_outcome.splits)

theorem token_never_in_assigned_url_witness:
  "assigned_srcs (trace (iframe_load StorageOk
      (loadDashboard ''http://ha.local:8123/'' ''abc'' (initial (\<lambda>i. blank_element))))) =
     [''about:blank'', ''http://ha.local:8123''] \<and>
   assigned_srcs (trace (iframe_load StorageOk
      (loadDashboard ''http://ha.local:8123/'' ''abc'' (initial (\<lambda>i. blank_element))))) =
   assigned_srcs (trace (iframe_load (StorageThrows ''SecurityError'')
      (loadDashboard ''http://ha.local:8123/'' ''xyz'' (initial (\<lambda>i. blank_element)))))"
proof -
  let ?s = "initial (\<lambda>i. blank_element)"
  note A = token_never_in_assigned_url
      [of "''http://ha.local:8123/''" "''abc''" ?s StorageOk "''xyz''"
          "StorageThrows ''SecurityError''" no_tables "TogglePassword []"]
  have n: "''http://ha.local:8123/'' \<noteq> [] \<and> ''abc'' \<noteq> []" by simp
  have n': "''http://ha.local:8123/'' \<noteq> [] \<and> ''abc'' \<noteq> [] \<and> ''xyz'' \<noteq> []" by simp
  have v: "replace_trailing_slashes ''http://ha.local:8123/'' = ''http://ha.local:8123''"
    by (simp add: regex_slashes_to_end_at_def)
  have e: "assigned_srcs (trace ?s) = []" by (simp add: initial_def)
  from A [THEN conjunct2, THEN conjunct1] n
  have "iframe_onload (loadDashboard ''http://ha.local:8123/'' ''abc'' ?s) =
        Some (replace_trailing_slashes ''http://ha.local:8123/'', ''abc'') \<and>
      assigned_srcs (trace (iframe_load StorageOk (loadDashboard ''http://ha.local:8123/'' ''abc'' ?s))) =
        assigned_srcs (trace ?s) @ [''about:blank'', replace_trailing_slashes ''http://ha.local:8123/'']"
    by (rule mp)
  then have a: "assigned_srcs (trace (iframe_load StorageOk
      (loadDashboard ''http://ha.local:8123/'' ''abc'' ?s))) = [''about:blank'', ''http://ha.local:8123'']"
    by (simp only: v e append_Nil)
  from A [THEN conjunct2, THEN conjunct2, THEN conjunct1] n'
  have b: "assigned_srcs (trace (iframe_load StorageOk (loadDashboard ''http://ha.local:8123/'' ''abc'' ?s))) =
      assigned_srcs (trace (iframe_load (StorageThrows ''SecurityError'')
         (loadDashboard ''http://ha.local:8123/'' ''xyz'' ?s)))"
    by (rule mp)
  from a b show ?thesis by (intro conjI)
qed

text \<open>
  C4: when the write into the storage throws, the load handler sends the exception to
  \<^verbatim>\<open>console.warn\<close> and still assigns the base URL to \<^verbatim>\<open>iframe.src\<close> and shows the container;
  the storage is left as it was.
\<close>

theorem injection_failure_logged_and_navigates:
  "(iframe_onload s = Some (b, tok) \<longrightarrow>
      trace (iframe_load (StorageThrows x) s) =
        trace s @ [LoadFired, SetItemThrew x,
                   ConsoleWarn [''Could not inject tokens into iframe localStorage:'', x],
                   AssignSrc ToDashboard b] \<and>
      iframe_src (iframe_load (StorageThrows x) s) = b \<and>
      localStorage (iframe_load (StorageThrows x) s) = localStorage s \<and>
      \<not> is_hidden ''dashboard-container'' (iframe_load (StorageThrows x) s)) \<and>
   (serverUrl \<noteq> [] \<and> token \<noteq> [] \<longrightarrow>
      trace (iframe_load (StorageThrows x) (loadDashboard serverUrl token s)) =
        trace s @ [AssignSrc ToBlank ''about:blank'', LoadFired, SetItemThrew x,
                   ConsoleWarn [''Could not inject tokens into iframe localStorage:'', x],
                   AssignSrc ToDashboard (replace_trailing_slashes serverUrl)] \<and>
      iframe_src (iframe_load (StorageThrows x) (loadDashboard serverUrl token s)) =
        replace_trailing_slashes serverUrl \<and>
      \<not> is_hidden ''dashboard-container''
          (iframe_load (StorageThrows x) (loadDashboard serverUrl token s)))"
proof (intro conjI impI)
  assume h: "iframe_onload s = Some (b, tok)"
  then show "trace (iframe_load (StorageThrows x) s) =
        trace s @ [LoadFired, SetItemThrew x,
                   ConsoleWarn [''Could not inject tokens into iframe localStorage:'', x],
                   AssignSrc ToDashboard b]"
    by (simp add: iframe_load_trace)
  from h show "iframe_src (iframe_load (StorageThrows x) s) = b"
    by (rule iframe_load_src)
  from h show "localStorage (iframe_load (StorageThrows x) s) = localStorage s"
    by (simp add: iframe_load_storage)
  from h show "\<not> is_hidden ''dashboard-container'' (iframe_load (StorageThrows x) s)"
    by (rule iframe_load_shows)
next
  assume n: "serverUrl \<noteq> [] \<and> token \<noteq> []"
  then have h: "iframe_onload (loadDashboard serverUrl token s) =
                  Some (replace_trailing_slashes serverUrl, token)"
    by (simp add: loadDashboard_onload)
  from n h show "trace (iframe_load (StorageThrows x) (loadDashboard serverUrl token s)) =
        trace s @ [AssignSrc ToBlank ''about:blank'', LoadFired, SetItemThrew x,
                   ConsoleWarn [''Could not inject tokens into iframe localStorage:'', x],
                   AssignSrc ToDashboard (replace_trailing_slashes serverUrl)]"
    by (simp add: iframe_load_trace loadDashboard_trace)
  from h show "iframe_src (iframe_load (StorageThrows x) (loadDashboard serverUrl token s)) =
        replace_trailing_slashes serverUrl"
    by (rule iframe_load_src)
  from h show "\<not> is_hidden ''dashboard-container''
          (iframe_load (StorageThrows x) (loadDashboard serverUrl token s))"
    by (rule iframe_load_shows)
qed

theorem injection_failure_logged_and_navigates_witness:
  "trace (iframe_load (StorageThrows ''SecurityError'')
      (loadDashboard ''http://ha.local:8123/'' ''abc'' (initial (\<lambda>i. blank_element)))) =
     [AssignSrc ToBlank ''about:blank'', LoadFired, SetItemThrew ''SecurityError'',
      ConsoleWarn [''Could not inject tokens into iframe localStorage:'', ''SecurityError''],
      AssignSrc ToDashboard ''http://ha.local:8123''] \<and>
   iframe_src (iframe_load (StorageThrows ''SecurityError'')
      (loadDashboard ''http://ha.local:8123/'' ''abc'' (initial (\<lambda>i. blank_element)))) =
     ''http://ha.local:8123''"
proof -
  let ?s = "initial (\<lambda>i. blank_element)"
  note A = injection_failure_logged_and_navigates
      [of ?s "[]" "[]" "''SecurityError''" "''http://ha.local:8123/''" "''abc''"]
  have n: "''http://ha.local:8123/'' \<noteq> [] \<and> ''abc'' \<noteq> []" by simp
  have v: "replace_trailing_slashes ''http://ha.local:8123/'' = ''http://ha.local:8123''"
    by (simp add: regex_slashes_to_end_at_def)
  have e: "trace ?s = []" by (simp add: initial_def)
  from A [THEN conjunct2] n
  have "trace (iframe_load (StorageThrows ''SecurityError'')
          (loadDashboard ''http://ha.local:8123/'' ''abc'' ?s)) =
        trace ?s @ [AssignSrc ToBlank ''about:blank'', LoadFired, SetItemThrew ''SecurityError'',
                   ConsoleWarn [''Could not inject tokens into iframe localStorage:'',
                                ''SecurityError''],
                   AssignSrc ToDashboard (replace_trailing_slashes ''http://ha.local:8123/'')] \<and>
      iframe_src (iframe_load (StorageThrows ''SecurityError'')
          (loadDashboard ''http://ha.local:8123/'' ''abc'' ?s)) =
        replace_trailing_slashes ''http://ha.local:8123/'' \<and>
      \<not> is_hidden ''dashboard-container''
          (iframe_load (StorageThrows ''SecurityError'')
             (loadDashboard ''http://ha.local:8123/'' ''abc'' ?s))"
    by (rule mp)
  then show ?thesis by (simp only: v e append_Nil simp_thms)
qed

subsection \<open>The credential and the repeated bootstrap\<close>

text \<open>
  C7, as the code has it: the load handler writes, under the key \<^verbatim>\<open>hassTokens\<close>, the JSON
  text of an object with exactly the properties \<^verbatim>\<open>hassUrl\<close> (the base URL, trailing slashes
  stripped), \<^verbatim>\<open>access_token\<close> (the token) and \<^verbatim>\<open>token_type\<close> (\<^verbatim>\<open>Bearer\<close>), and leaves the other
  keys of the storage alone.
\<close>

theorem credential_object_written:
  "map fst (hassTokens baseUrl token) = [''hassUrl'', ''access_token'', ''token_type''] \<and>
   map snd (hassTokens baseUrl token) = [baseUrl, token, ''Bearer''] \<and>
   (serverUrl \<noteq> [] \<and> token \<noteq> [] \<longrightarrow>
      localStorage (iframe_load StorageOk (loadDashboard serverUrl token s)) ''hassTokens'' =
        Some (JSON_stringify
               [(''hassUrl'', strip_trailing_slashes_spec serverUrl),
                (''access_token'', token), (''token_type'', ''Bearer'')]) \<and>
      (\<forall>k. k \<noteq> ''hassTokens'' \<longrightarrow>
         localStorage (iframe_load StorageOk (loadDashboard serverUrl token s)) k =
         localStorage s k) \<and>
      trace (iframe_load StorageOk (loadDashboard serverUrl token s)) =
        trace s @ [AssignSrc ToBlank ''about:blank'', LoadFired,
                   SetItem ''hassTokens''
                     (JSON_stringify
                        [(''hassUrl'', strip_trailing_slashes_spec serverUrl),
                         (''access_token'', token), (''token_type'', ''Bearer'')]),
                   AssignSrc ToDashboard (strip_trailing_slashes_spec serverUrl)])"
  by (simp add: hassTokens_def iframe_load_storage iframe_load_trace loadDashboard_onload
      loadDashboard_trace replace_trailing_slashes_spec)

theorem credential_object_written_witness:
  "localStorage (iframe_load StorageOk
      (loadDashboard ''http://ha.local:8123/'' ''abc'' (initial (\<lambda>i. blank_element))))
     ''hassTokens'' =
   Some (JSON_stringify [(''hassUrl'', ''http://ha.local:8123''),
                         (''access_token'', ''abc''), (''token_type'', ''Bearer'')]) \<and>
   localStorage (iframe_load StorageOk
      (loadDashboard ''http://ha.local:8123/'' ''abc'' (initial (\<lambda>i. blank_element))))
     ''other'' = None"
proof -
  let ?s = "initial (\<lambda>i. blank_element)"
  note A = credential_object_written [of "[]" "''abc''" "''http://ha.local:8123/''" ?s]
  have n: "''http://ha.local:8123/'' \<noteq> [] \<and> ''abc'' \<noteq> []" by simp
  have v: "strip_trailing_slashes_spec ''http://ha.local:8123/'' = ''http://ha.local:8123''"
    by (simp add: strip_trailing_slashes_spec_def)
  have e: "localStorage ?s ''other'' = None" by (simp add: initial_def)
  have k: "''other'' \<noteq> ''hassTokens''" by simp
  note B = mp [OF A [THEN conjunct2, THEN conjunct2] n]
  from B [THEN conjunct1]
  have a: "localStorage (iframe_load StorageOk (loadDashboard ''http://ha.local:8123/'' ''abc'' ?s))
             ''hassTokens'' =
           Some (JSON_stringify [(''hassUrl'', ''http://ha.local:8123''),
                                 (''access_token'', ''abc''), (''token_type'', ''Bearer'')])"
    by (simp only: v)
  from B [THEN conjunct2, THEN conjunct1, rule_format, OF k] e
  have b: "localStorage (iframe_load StorageOk (loadDashboard ''http://ha.local:8123/'' ''abc'' ?s))
             ''other'' = None"
    by (simp only:)
  from a b show ?thesis by (intro conjI)
qed

theorem credential_field_names_counterexample:
  "map fst (hassTokens ''http://ha.local:8123'' ''abc'') \<noteq>
     [''base_url'', ''access_token'', ''token_type''] \<and>
   map_of (hassTokens ''http://ha.local:8123'' ''abc'') ''base_url'' = None \<and>
   localStorage (iframe_load StorageOk
      (loadDashboard ''http://ha.local:8123/'' ''abc'' (initial (\<lambda>i. blank_element))))
     ''hassTokens'' \<noteq>
   Some (JSON_stringify [(''base_url'', ''http://ha.local:8123''),
                         (''access_token'', ''abc''), (''token_type'', ''Bearer'')])"
  by (simp add: hassTokens_def iframe_load_storage loadDashboard_onload initial_def
      regex_slashes_to_end_at_def JSON_stringify_def json_quote_def json_quote_char_def
      Let_def)

lemma added_append: "trace s' = trace s @ c \<Longrightarrow> added s s' = c"
  by (simp add: added_def)

lemma bootstrap_progress_not_started:
  "\<forall>u. AssignSrc ToBlank u \<notin> set c \<Longrightarrow> bootstrap_progress Nothing_done c = Nothing_done"
proof (induction c)
  case Nil
  show ?case by simp
next
  case (Cons x xs)
  then show ?case
  proof (cases x)
    case (AssignSrc k u)
    with Cons show ?thesis by (cases k) auto
  qed auto
qed

lemma bootstrap_progress_append:
  "bootstrap_progress st (xs @ ys) = bootstrap_progress (bootstrap_progress st xs) ys"
  by (induction st xs rule: bootstrap_progress.induct) simp_all

lemma closeSettings_never_three_steps:
  "\<not> repeats_three_steps (added s (iframe_load out (closeSettings r s)))"
proof -
  have "trace (iframe_load out (closeSettings r s)) =
          trace s @ (Invoke Load_dashboard #
            (case r of Inl err \<Rightarrow> [ConsoleError [''Failed to restore dashboard:'', err]]
             | Inr u \<Rightarrow> []) @
            LoadFired #
            (case iframe_onload s of
               None \<Rightarrow> []
             | Some (b, tok) \<Rightarrow>
                 (case out of
                    StorageOk \<Rightarrow> [SetItem ''hassTokens'' (JSON_stringify (hassTokens b tok))]
                  | StorageThrows e \<Rightarrow>
                      [SetItemThrew e,
                       ConsoleWarn [''Could not inject tokens into iframe localStorage:'', e]])
                 @ [AssignSrc ToDashboard b]))"
    (is "_ = _ @ ?c")
    by (simp add: iframe_load_trace closeSettings_trace)
  then have e: "added s (iframe_load out (closeSettings r s)) = ?c"
    by (rule added_append)
  have "\<forall>u. AssignSrc ToBlank u \<notin> set ?c"
    by (auto split: sum.splits option.splits storage_outcome.splits)
  then have "bootstrap_progress Nothing_done ?c = Nothing_done"
    by (rule bootstrap_progress_not_started)
  then show ?thesis
    unfolding repeats_three_steps_def e by simp
qed

lemma loadDashboard_three_steps:
  assumes "serverUrl \<noteq> []" "token \<noteq> []"
  shows "repeats_three_steps (added s (iframe_load out (loadDashboard serverUrl token s)))"
proof -
  from assms have "trace (iframe_load out (loadDashboard serverUrl token s)) =
      trace s @ (AssignSrc ToBlank ''about:blank'' # LoadFired #
        (case out of
           StorageOk \<Rightarrow> [SetItem ''hassTokens''
                           (JSON_stringify (hassTokens (replace_trailing_slashes serverUrl) token))]
         | StorageThrows e \<Rightarrow>
             [SetItemThrew e,
              ConsoleWarn [''Could not inject tokens into iframe localStorage:'', e]])
        @ [AssignSrc ToDashboard (replace_trailing_slashes serverUrl)])"
    (is "_ = _ @ ?c")
    by (simp add: iframe_load_trace loadDashboard_trace loadDashboard_onload)
  then have "added s (iframe_load out (loadDashboard serverUrl token s)) = ?c"
    by (rule added_append)
  then show ?thesis
    by (cases out) (simp_all add: repeats_three_steps_def)
qed

text \<open>
  \<^verbatim>\<open>saveSettings\<close> of the version with the frame: with the load event that follows it, the
  three steps are run exactly when the save succeeded, settings had been loaded, and the
  field holds another server URL than the loaded one, with neither it nor the token empty.
\<close>

lemma saveSettings_frame_three_steps:
  "repeats_three_steps (added s (iframe_load out (saveSettings_frame T r s))) =
     (case (r, currentSettings s) of
        (Inr u, Some cs) \<Rightarrow>
          arg_serverUrl (saveSettings_args s) \<noteq> server_url cs \<and>
          arg_serverUrl (saveSettings_args s) \<noteq> [] \<and>
          arg_accessToken (saveSettings_args s) \<noteq> []
      | _ \<Rightarrow> False)"
proof -
  let ?go = "case (r, currentSettings s) of
        (Inr u, Some cs) \<Rightarrow>
          arg_serverUrl (saveSettings_args s) \<noteq> server_url cs \<and>
          arg_serverUrl (saveSettings_args s) \<noteq> [] \<and>
          arg_accessToken (saveSettings_args s) \<noteq> []
      | _ \<Rightarrow> False"
  let ?s' = "saveSettings_frame T r s"
  obtain pre where pre: "trace ?s' = trace s @ pre @ (if ?go then [AssignSrc ToBlank ''about:blank''] else [])"
      "\<forall>u. AssignSrc ToBlank u \<notin> set pre"
      "bootstrap_progress Nothing_done pre = Nothing_done"
  proof -
    let ?pre = "Invoke (Save_settings (saveSettings_args s)) #
       (case r of
          Inl err \<Rightarrow> [ConsoleError [''Failed to save settings:'', err],
                      Alert (''Failed to save settings: '' @ err)]
        | Inr u \<Rightarrow>
            (case translation_table T (el_value (document s ''settings-language'')) of
               None \<Rightarrow> [ConsoleWarn [''Language '' @ [CHR 0x27] @
                                      el_value (document s ''settings-language'') @ [CHR 0x27] @
                                      '' not supported, falling back to '' @
                                      [CHR 0x27] @ ''en'' @ [CHR 0x27]]]
             | Some l \<Rightarrow> []))"
    have a: "trace ?s' = trace s @ ?pre @ (if ?go then [AssignSrc ToBlank ''about:blank''] else [])"
      by (simp add: saveSettings_frame_trace split: sum.splits option.splits)
    have b: "\<forall>u. AssignSrc ToBlank u \<notin> set ?pre"
      by (auto split: sum.splits option.splits)
    from b have "bootstrap_progress Nothing_done ?pre = Nothing_done"
      by (rule bootstrap_progress_not_started)
    with a b show ?thesis by (rule that)
  qed
  have onload: "iframe_onload ?s' =
      (if ?go then Some (replace_trailing_slashes (arg_serverUrl (saveSettings_args s)),
                         arg_accessToken (saveSettings_args s))
       else iframe_onload s)"
    by (simp add: saveSettings_frame_onload split: sum.splits option.splits)
  show ?thesis
  proof (cases ?go)
    case True
    let ?b = "replace_trailing_slashes (arg_serverUrl (saveSettings_args s))"
    let ?tok = "arg_accessToken (saveSettings_args s)"
    from True pre(1) onload
    have "trace (iframe_load out ?s') =
        trace s @ (pre @ AssignSrc ToBlank ''about:blank'' # LoadFired #
        (case out of
           StorageOk \<Rightarrow> [SetItem ''hassTokens'' (JSON_stringify (hassTokens ?b ?tok))]
         | StorageThrows e \<Rightarrow>
             [SetItemThrew e,
              ConsoleWarn [''Could not inject tokens into iframe localStorage:'', e]])
        @ [AssignSrc ToDashboard ?b])"
      by (simp add: iframe_load_trace)
    then have "added s (iframe_load out ?s') =
        pre @ AssignSrc ToBlank ''about:blank'' # LoadFired #
        (case out of
           StorageOk \<Rightarrow> [SetItem ''hassTokens'' (JSON_stringify (hassTokens ?b ?tok))]
         | StorageThrows e \<Rightarrow>
             [SetItemThrew e,
              ConsoleWarn [''Could not inject tokens into iframe localStorage:'', e]])
        @ [AssignSrc ToDashboard ?b]"
      by (rule added_append)
    with pre(3) have "repeats_three_steps (added s (iframe_load out ?s'))"
      by (cases out) (simp_all add: repeats_three_steps_def bootstrap_progress_append)
    with True show ?thesis by simp
  next
    case False
    let ?tail = "LoadFired #
            (case iframe_onload s of
               None \<Rightarrow> []
             | Some (b, tok) \<Rightarrow>
                 (case out of
                    StorageOk \<Rightarrow> [SetItem ''hassTokens'' (JSON_stringify (hassTokens b tok))]
                  | StorageThrows e \<Rightarrow>
                      [SetItemThrew e,
                       ConsoleWarn [''Could not inject tokens into iframe localStorage:'', e]])
                 @ [AssignSrc ToDashboard b])"
    from False pre(1) onload
    have "trace (iframe_load out ?s') = trace s @ (pre @ ?tail)"
      by (simp add: iframe_load_trace)
    then have "added s (iframe_load out ?s') = pre @ ?tail"
      by (rule added_append)
    then have e: "added s (iframe_load out ?s') = pre @ ?tail" .
    have "\<forall>u. AssignSrc ToBlank u \<notin> set (pre @ ?tail)"
      using pre(2) by (auto split: option.splits storage_outcome.splits)
    then have "bootstrap_progress Nothing_done (pre @ ?tail) = Nothing_done"
      by (rule bootstrap_progress_not_started)
    with False show ?thesis
      unfolding repeats_three_steps_def e by simp
  qed
qed


text \<open>
  C9, as the code has it: from any state of the page, whatever was assigned, installed or
  stored before, an invocation of \<^verbatim>\<open>loadDashboard\<close> with a server URL and a token assigns the
  blank page (not the dashboard), and the load event that follows writes the credential
  again and only then assigns the base URL: the three steps are repeated. Closing the
  settings view does not run them in the page. \<^verbatim>\<open>closeSettings\<close> hides the overlay and sends
  the command \<^verbatim>\<open>load_dashboard\<close>; it assigns nothing to the frame, installs no handler and
  writes nothing. In the version with the frame \<^verbatim>\<open>closeSettings\<close> only hides the overlay, and
  \<^verbatim>\<open>saveSettings\<close> runs the three steps exactly when the save succeeded and the field holds
  another server URL than the one loaded, with neither it nor the token empty.
\<close>

theorem reinvocation_repeats_three_steps:
  "(serverUrl \<noteq> [] \<and> token \<noteq> [] \<longrightarrow>
      trace (loadDashboard serverUrl token s) = trace s @ [AssignSrc ToBlank ''about:blank''] \<and>
      iframe_src (loadDashboard serverUrl token s) = ''about:blank'' \<and>
      trace (iframe_load StorageOk (loadDashboard serverUrl token s)) =
        trace s @ [AssignSrc ToBlank ''about:blank'', LoadFired,
                   SetItem ''hassTokens''
                     (JSON_stringify (hassTokens (replace_trailing_slashes serverUrl) token)),
                   AssignSrc ToDashboard (replace_trailing_slashes serverUrl)] \<and>
      localStorage (iframe_load StorageOk (loadDashboard serverUrl token s)) ''hassTokens'' =
        Some (JSON_stringify (hassTokens (replace_trailing_slashes serverUrl) token)) \<and>
      iframe_src (iframe_load out (loadDashboard serverUrl token s)) =
        replace_trailing_slashes serverUrl \<and>
      trace (iframe_load (StorageThrows x) (loadDashboard serverUrl token s)) =
        trace s @ [AssignSrc ToBlank ''about:blank'', LoadFired, SetItemThrew x,
                   ConsoleWarn [''Could not inject tokens into iframe localStorage:'', x],
                   AssignSrc ToDashboard (replace_trailing_slashes serverUrl)] \<and>
      repeats_three_steps (added s (iframe_load out (loadDashboard serverUrl token s)))) \<and>
   assigned_srcs (trace (closeSettings r s)) = assigned_srcs (trace s) \<and>
   commands (trace (closeSettings r s)) = commands (trace s) @ [Load_dashboard] \<and>
   iframe_src (closeSettings r s) = iframe_src s \<and>
   iframe_onload (closeSettings r s) = iframe_onload s \<and>
   localStorage (closeSettings r s) = localStorage s \<and>
   \<not> repeats_three_steps (added s (iframe_load out (closeSettings r s))) \<and>
   trace (closeSettings_frame s) = trace s \<and>
   iframe_src (closeSettings_frame s) = iframe_src s \<and>
   iframe_onload (closeSettings_frame s) = iframe_onload s \<and>
   repeats_three_steps (added s (iframe_load out (saveSettings_frame T r' s))) =
     (case (r', currentSettings s) of
        (Inr u, Some cs) \<Rightarrow>
          arg_serverUrl (saveSettings_args s) \<noteq> server_url cs \<and>
          arg_serverUrl (saveSettings_args s) \<noteq> [] \<and>
          arg_accessToken (saveSettings_args s) \<noteq> []
      | _ \<Rightarrow> False)"
proof (intro conjI impI)
  assume n: "serverUrl \<noteq> [] \<and> token \<noteq> []"
  then have h: "iframe_onload (loadDashboard serverUrl token s) =
                  Some (replace_trailing_slashes serverUrl, token)"
    by (simp add: loadDashboard_onload)
  from n show "trace (loadDashboard serverUrl token s) =
                 trace s @ [AssignSrc ToBlank ''about:blank'']"
    by (simp add: loadDashboard_trace)
  from n show "iframe_src (loadDashboard serverUrl token s) = ''about:blank''"
    by (simp add: loadDashboard_src)
  from n h show "trace (iframe_load StorageOk (loadDashboard serverUrl token s)) =
        trace s @ [AssignSrc ToBlank ''about:blank'', LoadFired,
                   SetItem ''hassTokens''
                     (JSON_stringify (hassTokens (replace_trailing_slashes serverUrl) token)),
                   AssignSrc ToDashboard (replace_trailing_slashes serverUrl)]"
    by (simp add: iframe_load_trace loadDashboard_trace)
  from h show "localStorage (iframe_load StorageOk (loadDashboard serverUrl token s))
                 ''hassTokens'' =
        Some (JSON_stringify (hassTokens (replace_trailing_slashes serverUrl) token))"
    by (simp add: iframe_load_storage)
  from h show "iframe_src (iframe_load out (loadDashboard serverUrl token s)) =
        replace_trailing_slashes serverUrl"
    by (rule iframe_load_src)
  from n h show "trace (iframe_load (StorageThrows x) (loadDashboard serverUrl token s)) =
        trace s @ [AssignSrc ToBlank ''about:blank'', LoadFired, SetItemThrew x,
                   ConsoleWarn [''Could not inject tokens into iframe localStorage:'', x],
                   AssignSrc ToDashboard (replace_trailing_slashes serverUrl)]"
    by (simp add: iframe_load_trace loadDashboard_trace)
  from n show "repeats_three_steps (added s (iframe_load out (loadDashboard serverUrl token s)))"
    by (simp add: loadDashboard_three_steps)
next
  show "assigned_srcs (trace (closeSettings r s)) = assigned_srcs (trace s)"
    by (simp add: closeSettings_trace split: sum.splits)
  show "commands (trace (closeSettings r s)) = commands (trace s) @ [Load_dashboard]"
    by (simp add: closeSettings_trace split: sum.splits)
  show "iframe_src (closeSettings r s) = iframe_src s"
    by simp
  show "iframe_onload (closeSettings r s) = iframe_onload s"
    by simp
  show "localStorage (closeSettings r s) = localStorage s"
    by simp
  show "\<not> repeats_three_steps (added s (iframe_load out (closeSettings r s)))"
    by (rule closeSettings_never_three_steps)
  show "trace (closeSettings_frame s) = trace s"
    by simp
  show "iframe_src (closeSettings_frame s) = iframe_src s"
    by simp
  show "iframe_onload (closeSettings_frame s) = iframe_onload s"
    by simp
  show "repeats_three_steps (added s (iframe_load out (saveSettings_frame T r' s))) =
     (case (r', currentSettings s) of
        (Inr u, Some cs) \<Rightarrow>
          arg_serverUrl (saveSettings_args s) \<noteq> server_url cs \<and>
          arg_serverUrl (saveSettings_args s) \<noteq> [] \<and>
          arg_accessToken (saveSettings_args s) \<noteq> []
      | _ \<Rightarrow> False)"
    by (rule saveSettings_frame_three_steps)
qed

text \<open>A second bootstrap, on the state that a first, completed one has left.\<close>

theorem reinvocation_repeats_three_steps_witness:
  "assigned_srcs (trace (run no_tables
      [LoadDashboard ''http://ha.local:8123/'' ''abc'', IframeLoad StorageOk,
       LoadDashboard ''http://ha.local:8123/'' ''abc'', IframeLoad StorageOk]
      (initial (\<lambda>i. blank_element)))) =
     [''about:blank'', ''http://ha.local:8123'', ''about:blank'', ''http://ha.local:8123''] \<and>
   trace (run no_tables
      [LoadDashboard ''http://ha.local:8123/'' ''abc'', IframeLoad StorageOk,
       LoadDashboard ''http://ha.local:8123/'' ''abc'', IframeLoad StorageOk]
      (initial (\<lambda>i. blank_element))) =
   trace (run no_tables
      [LoadDashboard ''http://ha.local:8123/'' ''abc'', IframeLoad StorageOk]
      (initial (\<lambda>i. blank_element))) @
     [AssignSrc ToBlank ''about:blank'', LoadFired,
      SetItem ''hassTokens'' (JSON_stringify (hassTokens ''http://ha.local:8123'' ''abc'')),
      AssignSrc ToDashboard ''http://ha.local:8123''] \<and>
   \<not> repeats_three_steps
       (added settings_filled_page
          (iframe_load StorageOk (saveSettings_frame no_tables (Inr ()) settings_filled_page)))"
proof -
  let ?s0 = "initial (\<lambda>i. blank_element)"
  let ?s1 = "iframe_load StorageOk (loadDashboard ''http://ha.local:8123/'' ''abc'' ?s0)"
  have n: "''http://ha.local:8123/'' \<noteq> [] \<and> ''abc'' \<noteq> []" by simp
  have v: "replace_trailing_slashes ''http://ha.local:8123/'' = ''http://ha.local:8123''"
    by (simp add: regex_slashes_to_end_at_def)
  note A = mp [OF reinvocation_repeats_three_steps
      [of "''http://ha.local:8123/''" "''abc''" ?s1 StorageOk "[]" "Inr ()", THEN conjunct1] n]
  note B = mp [OF reinvocation_repeats_three_steps
      [of "''http://ha.local:8123/''" "''abc''" ?s0 StorageOk "[]" "Inr ()", THEN conjunct1] n]
  have r2: "run no_tables
      [LoadDashboard ''http://ha.local:8123/'' ''abc'', IframeLoad StorageOk,
       LoadDashboard ''http://ha.local:8123/'' ''abc'', IframeLoad StorageOk] ?s0 =
      iframe_load StorageOk (loadDashboard ''http://ha.local:8123/'' ''abc'' ?s1)"
    by simp
  have r1: "run no_tables
      [LoadDashboard ''http://ha.local:8123/'' ''abc'', IframeLoad StorageOk] ?s0 = ?s1"
    by simp
  have e: "trace ?s0 = []" by (simp add: initial_def)
  have t2: "trace (iframe_load StorageOk (loadDashboard ''http://ha.local:8123/'' ''abc'' ?s1)) =
      trace ?s1 @ [AssignSrc ToBlank ''about:blank'', LoadFired,
      SetItem ''hassTokens'' (JSON_stringify (hassTokens ''http://ha.local:8123'' ''abc'')),
      AssignSrc ToDashboard ''http://ha.local:8123'']"
    using A [THEN conjunct2, THEN conjunct2, THEN conjunct1] by (simp only: v)
  have t1: "trace ?s1 = [AssignSrc ToBlank ''about:blank'', LoadFired,
      SetItem ''hassTokens'' (JSON_stringify (hassTokens ''http://ha.local:8123'' ''abc'')),
      AssignSrc ToDashboard ''http://ha.local:8123'']"
    using B [THEN conjunct2, THEN conjunct2, THEN conjunct1] by (simp only: v e append_Nil)
  have "assigned_srcs (trace (iframe_load StorageOk
          (loadDashboard ''http://ha.local:8123/'' ''abc'' ?s1))) =
     [''about:blank'', ''http://ha.local:8123'', ''about:blank'', ''http://ha.local:8123'']"
    unfolding t2 unfolding t1 by simp
  with t2 have first: "assigned_srcs (trace (run no_tables
      [LoadDashboard ''http://ha.local:8123/'' ''abc'', IframeLoad StorageOk,
       LoadDashboard ''http://ha.local:8123/'' ''abc'', IframeLoad StorageOk] ?s0)) =
     [''about:blank'', ''http://ha.local:8123'', ''about:blank'', ''http://ha.local:8123''] \<and>
   trace (run no_tables
      [LoadDashboard ''http://ha.local:8123/'' ''abc'', IframeLoad StorageOk,
       LoadDashboard ''http://ha.local:8123/'' ''abc'', IframeLoad StorageOk] ?s0) =
   trace (run no_tables
      [LoadDashboard ''http://ha.local:8123/'' ''abc'', IframeLoad StorageOk] ?s0) @
     [AssignSrc ToBlank ''about:blank'', LoadFired,
      SetItem ''hassTokens'' (JSON_stringify (hassTokens ''http://ha.local:8123'' ''abc'')),
      AssignSrc ToDashboard ''http://ha.local:8123'']"
    unfolding r2 r1 by (intro conjI)
  note F = reinvocation_repeats_three_steps
      [of "[]" "[]" settings_filled_page StorageOk "[]" "Inr ()" no_tables "Inr ()",
       THEN conjunct2, THEN conjunct2, THEN conjunct2, THEN conjunct2, THEN conjunct2,
       THEN conjunct2, THEN conjunct2, THEN conjunct2, THEN conjunct2, THEN conjunct2]
  have tr: "trim ''http://ha.local:8123/'' = ''http://ha.local:8123/''" by code_simp
  have cs: "currentSettings settings_filled_page = Some registered_settings"
    by (simp add: settings_filled_page_def)
  have url: "arg_serverUrl (saveSettings_args settings_filled_page) = ''http://ha.local:8123/''"
    by (simp add: saveSettings_args_def settings_filled_page_def set_value_def tr)
  have "server_url registered_settings = ''http://ha.local:8123/''"
    by (simp add: registered_settings_def)
  with F cs url have fr: "\<not> repeats_three_steps
       (added settings_filled_page
          (iframe_load StorageOk (saveSettings_frame no_tables (Inr ()) settings_filled_page)))"
    by simp
  from first [THEN conjunct1] first [THEN conjunct2] fr show ?thesis by (intro conjI)
qed

text \<open>
  Closing the settings view after a completed bootstrap, and the next load event of the
  frame: the command \<^verbatim>\<open>load_dashboard\<close> is sent, and none of the three steps is run.
\<close>

theorem closing_settings_runs_no_bootstrap_counterexample:
  "added dashboard_shown_page
     (run no_tables [CloseSettings (Inr ()), IframeLoad StorageOk] dashboard_shown_page) =
     [Invoke Load_dashboard, LoadFired] \<and>
   \<not> repeats_three_steps
       (added dashboard_shown_page
          (run no_tables [CloseSettings (Inr ()), IframeLoad StorageOk] dashboard_shown_page)) \<and>
   assigned_srcs (trace
     (run no_tables [CloseSettings (Inr ()), IframeLoad StorageOk] dashboard_shown_page)) =
     [''about:blank'', ''http://ha.local:8123'']"
proof -
  have n: "iframe_onload dashboard_shown_page = None"
    by (simp add: dashboard_shown_page_def)
  have t: "assigned_srcs (trace dashboard_shown_page) = [''about:blank'', ''http://ha.local:8123'']"
    by (simp add: dashboard_shown_page_def iframe_load_trace loadDashboard_trace
        loadDashboard_onload initial_def regex_slashes_to_end_at_def)
  have "trace (run no_tables [CloseSettings (Inr ()), IframeLoad StorageOk] dashboard_shown_page) =
          trace dashboard_shown_page @ [Invoke Load_dashboard, LoadFired]"
    using n by (simp add: iframe_load_trace closeSettings_trace)
  then have a: "added dashboard_shown_page
     (run no_tables [CloseSettings (Inr ()), IframeLoad StorageOk] dashboard_shown_page) =
     [Invoke Load_dashboard, LoadFired]"
    and b: "assigned_srcs (trace
     (run no_tables [CloseSettings (Inr ()), IframeLoad StorageOk] dashboard_shown_page)) =
     [''about:blank'', ''http://ha.local:8123'']"
    using t by (simp_all add: added_def)
  from a b show ?thesis by (simp add: repeats_three_steps_def)
qed

subsection \<open>Application start\<close>

lemma initApp_commands:
  "commands (trace (initApp T r s)) = commands (trace s) @ [Get_settings]"
  by (simp add: initApp_trace split: sum.splits option.splits)

lemma initApp_setup_screen_kept:
  "r = Inr st \<Longrightarrow> server_url st \<noteq> [] \<Longrightarrow> access_token st \<noteq> [] \<Longrightarrow> is_registered st \<Longrightarrow>
   is_hidden ''setup-screen'' (initApp T r s) = is_hidden ''setup-screen'' s"
  by (simp add: initApp_def Let_def loadDashboard_def is_hidden_def)

text \<open>
  C5: when \<^verbatim>\<open>get_settings\<close> answers with an empty server URL or an empty token (or is
  rejected, or the device is not registered), \<^verbatim>\<open>initApp\<close> shows the setup screen, hides the
  dashboard container and starts no load of the dashboard: nothing is assigned to the
  frame and no load handler is installed. It starts the load, and leaves the setup screen
  as it is, exactly when both are non-empty and \<^verbatim>\<open>is_registered\<close> is true. The only command
  it sends is \<^verbatim>\<open>get_settings\<close>.
\<close>

theorem initApp_gates_dashboard:
  "((case r of Inl err \<Rightarrow> True
     | Inr st \<Rightarrow> server_url st = [] \<or> access_token st = [] \<or> \<not> is_registered st) \<longrightarrow>
      \<not> is_hidden ''setup-screen'' (initApp T r s) \<and>
      is_hidden ''dashboard-container'' (initApp T r s) \<and>
      assigned_srcs (trace (initApp T r s)) = assigned_srcs (trace s) \<and>
      iframe_src (initApp T r s) = iframe_src s \<and>
      iframe_onload (initApp T r s) = iframe_onload s \<and>
      localStorage (initApp T r s) = localStorage s) \<and>
   (\<forall>st. r = Inr st \<and> server_url st \<noteq> [] \<and> access_token st \<noteq> [] \<and> is_registered st \<longrightarrow>
      assigned_srcs (trace (initApp T r s)) = assigned_srcs (trace s) @ [''about:blank''] \<and>
      iframe_src (initApp T r s) = ''about:blank'' \<and>
      iframe_onload (initApp T r s) =
        Some (replace_trailing_slashes (server_url st), access_token st) \<and>
      is_hidden ''setup-screen'' (initApp T r s) = is_hidden ''setup-screen'' s) \<and>
   (assigned_srcs (trace (initApp T r s)) \<noteq> assigned_srcs (trace s) \<longrightarrow>
      (\<exists>st. r = Inr st \<and> server_url st \<noteq> [] \<and> access_token st \<noteq> [] \<and> is_registered st)) \<and>
   commands (trace (initApp T r s)) = commands (trace s) @ [Get_settings]"
proof (intro conjI impI allI)
  assume a: "case r of Inl err \<Rightarrow> True
     | Inr st \<Rightarrow> server_url st = [] \<or> access_token st = [] \<or> \<not> is_registered st"
  from a show "\<not> is_hidden ''setup-screen'' (initApp T r s)"
    using initApp_setup_shown[of r T s] by simp
  from a show "is_hidden ''dashboard-container'' (initApp T r s)"
    using initApp_setup_shown[of r T s] by simp
  from a show "assigned_srcs (trace (initApp T r s)) = assigned_srcs (trace s)"
    by (auto simp: initApp_trace split: sum.splits option.splits)
  from a show "iframe_src (initApp T r s) = iframe_src s"
    by (auto simp: initApp_src split: sum.splits)
  from a show "iframe_onload (initApp T r s) = iframe_onload s"
    by (auto simp: initApp_onload split: sum.splits)
  from a show "localStorage (initApp T r s) = localStorage s"
    by (auto simp: initApp_def Let_def dom_ops split: sum.splits)
next
  fix st
  assume b: "r = Inr st \<and> server_url st \<noteq> [] \<and> access_token st \<noteq> [] \<and> is_registered st"
  from b show "assigned_srcs (trace (initApp T r s)) = assigned_srcs (trace s) @ [''about:blank'']"
    by (auto simp: initApp_trace split: option.splits)
  from b show "iframe_src (initApp T r s) = ''about:blank''"
    by (simp add: initApp_src)
  from b show "iframe_onload (initApp T r s) =
        Some (replace_trailing_slashes (server_url st), access_token st)"
    by (simp add: initApp_onload)
  from b show "is_hidden ''setup-screen'' (initApp T r s) = is_hidden ''setup-screen'' s"
    by (simp add: initApp_setup_screen_kept)
next
  assume "assigned_srcs (trace (initApp T r s)) \<noteq> assigned_srcs (trace s)"
  then show "\<exists>st. r = Inr st \<and> server_url st \<noteq> [] \<and> access_token st \<noteq> [] \<and> is_registered st"
    by (auto simp: initApp_trace split: sum.splits option.splits if_splits)
next
  show "commands (trace (initApp T r s)) = commands (trace s) @ [Get_settings]"
    by (rule initApp_commands)
qed

theorem initApp_gates_dashboard_witness:
  "\<not> is_hidden ''setup-screen'' (initApp no_tables (Inr fresh_settings) (initial (\<lambda>i. blank_element))) \<and>
   assigned_srcs (trace (initApp no_tables (Inr fresh_settings) (initial (\<lambda>i. blank_element)))) = [] \<and>
   iframe_onload (initApp no_tables (Inr fresh_settings) (initial (\<lambda>i. blank_element))) = None \<and>
   assigned_srcs (trace (initApp no_tables (Inr registered_settings) (initial (\<lambda>i. blank_element)))) =
     [''about:blank''] \<and>
   iframe_onload (initApp no_tables (Inr registered_settings) (initial (\<lambda>i. blank_element))) =
     Some (''http://ha.local:8123'', ''abc'')"
proof -
  let ?s = "initial (\<lambda>i. blank_element)"
  note A = initApp_gates_dashboard [of "Inr fresh_settings" no_tables ?s]
  note B = initApp_gates_dashboard [of "Inr registered_settings" no_tables ?s]
  have f: "case Inr fresh_settings of Inl err \<Rightarrow> True
     | Inr st \<Rightarrow> server_url st = [] \<or> access_token st = [] \<or> \<not> is_registered st"
    by (simp add: fresh_settings_def)
  have g: "Inr registered_settings = Inr registered_settings \<and>
           server_url registered_settings \<noteq> [] \<and> access_token registered_settings \<noteq> [] \<and>
           is_registered registered_settings"
    by (simp add: registered_settings_def)
  have e: "assigned_srcs (trace ?s) = []" "iframe_onload ?s = None"
    by (simp_all add: initial_def)
  have v: "replace_trailing_slashes (server_url registered_settings) = ''http://ha.local:8123''"
          "access_token registered_settings = ''abc''"
    by (simp_all add: registered_settings_def regex_slashes_to_end_at_def)
  note A1 = mp [OF A [THEN conjunct1] f]
  note B1 = B [THEN conjunct2, THEN conjunct1, rule_format, OF g]
  from A1 [THEN conjunct1] A1 [THEN conjunct2, THEN conjunct2, THEN conjunct1]
       A1 [THEN conjunct2, THEN conjunct2, THEN conjunct2, THEN conjunct2, THEN conjunct1]
       B1 [THEN conjunct1] B1 [THEN conjunct2, THEN conjunct2, THEN conjunct1]
  show ?thesis by (simp only: e v append_Nil simp_thms)
qed

subsection \<open>The update interval\<close>

lemma digit_value_char_of:
  "d < 10 \<Longrightarrow> digit_value (char_of (48 + d)) = Some d"
  by (simp add: digit_value_def Let_def)

lemma ws_width_digit:
  assumes "48 \<le> (of_char c :: nat)" "(of_char c :: nat) \<le> 57"
  shows "ws_width (c # cs) = 0"
proof -
  have "c \<notin> set [CHR 0x09, CHR 0x0A, CHR 0x0B, CHR 0x0C, CHR 0x0D, CHR 0x20]"
    using assms by auto
  moreover have "c \<noteq> CHR 0xC2" using assms by auto
  moreover have "c \<noteq> CHR 0xE1" "c \<noteq> CHR 0xE2" "c \<noteq> CHR 0xE3" "c \<noteq> CHR 0xEF"
    using assms by auto
  ultimately show ?thesis
    by (cases cs; cases "tl cs") (auto simp: ws_width_def utf8_ws3_def)
qed

lemma show_nat_digits:
  "\<forall>c\<in>set (show_nat n). 48 \<le> (of_char c :: nat) \<and> (of_char c :: nat) \<le> 57"
proof (induction n rule: show_nat.induct)
  case (1 n)
  show ?case
  proof (cases "n < 10")
    case True
    then show ?thesis by (subst show_nat.simps) simp
  next
    case False
    have "n mod 10 < 10" by simp
    then have "(48 + n mod 10) mod 256 = 48 + n mod 10" by simp
    with False 1 show ?thesis
      by (subst show_nat.simps) auto
  qed
qed

lemma show_nat_not_Nil: "show_nat n \<noteq> []"
  by (subst show_nat.simps) simp

lemma digits_value_append:
  "digits_value R acc (xs @ ys) = digits_value R (digits_value R acc xs) ys"
  by (induction xs arbitrary: acc) simp_all

lemma digits_value_show_nat: "digits_value 10 0 (show_nat n) = n"
proof (induction n rule: show_nat.induct)
  case (1 n)
  show ?case
  proof (cases "n < 10")
    case True
    then show ?thesis
      by (subst show_nat.simps) (simp add: digit_value_char_of)
  next
    case False
    have "n mod 10 < 10" by simp
    then have "digit_value (char_of (48 + n mod 10)) = Some (n mod 10)"
      by (rule digit_value_char_of)
    with False 1 show ?thesis
      by (subst show_nat.simps) (simp add: digits_value_append)
  qed
qed

lemma show_nat_all_decimal: "takeWhile (is_radix_digit 10) (show_nat n) = show_nat n"
proof -
  have "\<forall>c\<in>set (show_nat n). is_radix_digit 10 c"
    using show_nat_digits[of n] by (auto simp: is_radix_digit_def digit_value_def Let_def)
  then show ?thesis by (simp add: takeWhile_eq_all_conv)
qed

lemma show_nat_hd:
  "\<exists>c cs. show_nat n = c # cs \<and> 48 \<le> (of_char c :: nat) \<and> (of_char c :: nat) \<le> 57"
proof -
  obtain c cs where s: "show_nat n = c # cs"
    using show_nat_not_Nil[of n] by (cases "show_nat n") auto
  then have "c \<in> set (show_nat n)" by simp
  then have "48 \<le> (of_char c :: nat) \<and> (of_char c :: nat) \<le> 57"
    using show_nat_digits[of n] by blast
  with s show ?thesis by blast
qed

lemma show_nat_no_x: "CHR ''x'' \<notin> set (show_nat n)" "CHR ''X'' \<notin> set (show_nat n)"
  using show_nat_digits[of n] by fastforce+

lemma show_nat_no_hex_prefix:
  "take 2 (show_nat n) \<noteq> ''0x''" "take 2 (show_nat n) \<noteq> ''0X''"
proof -
  have "set (take 2 (show_nat n)) \<subseteq> set (show_nat n)" by (rule set_take_subset)
  with show_nat_no_x[of n] show "take 2 (show_nat n) \<noteq> ''0x''" "take 2 (show_nat n) \<noteq> ''0X''"
    by auto
qed

lemma parseInt_show_nat: "parseInt (show_nat n) = to_number (int n)"
proof -
  obtain c cs where s: "show_nat n = c # cs" "48 \<le> (of_char c :: nat)" "(of_char c :: nat) \<le> 57"
    using show_nat_hd[of n] by blast
  then have w: "ws_width (show_nat n) = 0" by (simp add: ws_width_digit)
  then have t: "trimStart (show_nat n) = show_nat n" by (subst trimStart.simps) simp
  from s have sign: "take 1 (show_nat n) \<noteq> ''-''" "take 1 (show_nat n) \<noteq> ''+''" by auto
  show ?thesis
    unfolding parseInt_def t Let_def
    using sign show_nat_no_hex_prefix[of n] show_nat_not_Nil[of n]
    by (simp add: show_nat_all_decimal digits_value_show_nat)
qed

lemma ws_width_minus: "ws_width (CHR ''-'' # cs) = 0"
  by (cases cs; cases "tl cs") (auto simp: ws_width_def utf8_ws3_def)

lemma parseInt_minus_show_nat: "parseInt (CHR ''-'' # show_nat n) = to_number (- int n)"
proof -
  have t: "trimStart (CHR ''-'' # show_nat n) = CHR ''-'' # show_nat n"
    by (subst trimStart.simps) (simp add: ws_width_minus)
  show ?thesis
    unfolding parseInt_def t Let_def
    using show_nat_no_hex_prefix[of n] show_nat_not_Nil[of n]
    by (simp add: show_nat_all_decimal digits_value_show_nat)
qed

lemma saveSettings_commands:
  "commands (trace (saveSettings T r1 r2 s)) =
     commands (trace s) @ Save_settings (saveSettings_args s) #
       (case r1 of Inl err \<Rightarrow> [] | Inr u \<Rightarrow> [Load_dashboard])"
  by (simp add: saveSettings_trace split: sum.splits option.splits)

lemma handleSetup_commands:
  "commands (trace (handleSetup r1 r2 s)) =
     commands (trace s) @ Save_settings
        \<lparr>arg_serverUrl = trim (el_value (document s ''setup-server-url'')),
         arg_accessToken = trim (el_value (document s ''setup-token'')),
         arg_updateInterval = Exact 60, arg_language = currentLanguage s,
         arg_autostart = False\<rparr> #
       (case r1 of Inl err \<Rightarrow> [] | Inr u \<Rightarrow> [Register_device])"
  by (simp add: handleSetup_trace split: sum.splits)

text \<open>
  C8, as the code has it: the \<^verbatim>\<open>updateInterval\<close> that \<^verbatim>\<open>saveSettings\<close> sends is never NaN and
  never 0. It is 60 when the field does not parse to an integer or parses to zero, and the
  parsed integer otherwise: \<open>n\<close> for the numeral of a positive \<open>n\<close>, and the negative \<open>- n\<close>
  for that numeral after a minus sign. \<^verbatim>\<open>handleSetup\<close> always sends 60.
\<close>

theorem submitted_interval:
  "interval_of_field v \<noteq> NaN \<and> interval_of_field v \<noteq> Exact 0 \<and>
   (parseInt v = NaN \<or> parseInt v = Exact 0 \<longrightarrow> interval_of_field v = Exact 60) \<and>
   (parseInt v \<noteq> NaN \<and> parseInt v \<noteq> Exact 0 \<longrightarrow> interval_of_field v = parseInt v) \<and>
   (0 < n \<and> int n \<le> 2 ^ 53 \<longrightarrow>
      interval_of_field (show_nat n) = Exact (int n) \<and>
      interval_of_field (CHR ''-'' # show_nat n) = Exact (- int n)) \<and>
   commands (trace (saveSettings T r1 r2 s)) =
     commands (trace s) @ Save_settings (saveSettings_args s) #
       (case r1 of Inl err \<Rightarrow> [] | Inr u \<Rightarrow> [Load_dashboard]) \<and>
   arg_updateInterval (saveSettings_args s) =
     interval_of_field (el_value (document s ''settings-interval'')) \<and>
   commands (trace (handleSetup r1' r2' s)) =
     commands (trace s) @ Save_settings
        \<lparr>arg_serverUrl = trim (el_value (document s ''setup-server-url'')),
         arg_accessToken = trim (el_value (document s ''setup-token'')),
         arg_updateInterval = Exact 60, arg_language = currentLanguage s,
         arg_autostart = False\<rparr> #
       (case r1' of Inl err \<Rightarrow> [] | Inr u \<Rightarrow> [Register_device])"
proof (intro conjI impI)
  show "interval_of_field v \<noteq> NaN" "interval_of_field v \<noteq> Exact 0"
    by (simp_all add: interval_of_field_def or_60_def number_truthy_def)
  show "interval_of_field v = Exact 60" if "parseInt v = NaN \<or> parseInt v = Exact 0"
    using that by (auto simp: interval_of_field_def or_60_def number_truthy_def)
  show "interval_of_field v = parseInt v" if "parseInt v \<noteq> NaN \<and> parseInt v \<noteq> Exact 0"
    using that by (simp add: interval_of_field_def or_60_def number_truthy_def)
next
  assume n: "0 < n \<and> int n \<le> 2 ^ 53"
  then show "interval_of_field (show_nat n) = Exact (int n)"
    by (simp add: interval_of_field_def parseInt_show_nat to_number_def or_60_def
        number_truthy_def)
  from n show "interval_of_field (CHR ''-'' # show_nat n) = Exact (- int n)"
    by (simp add: interval_of_field_def parseInt_minus_show_nat to_number_def or_60_def
        number_truthy_def)
next
  show "commands (trace (saveSettings T r1 r2 s)) =
     commands (trace s) @ Save_settings (saveSettings_args s) #
       (case r1 of Inl err \<Rightarrow> [] | Inr u \<Rightarrow> [Load_dashboard])"
    by (rule saveSettings_commands)
  show "arg_updateInterval (saveSettings_args s) =
     interval_of_field (el_value (document s ''settings-interval''))"
    by (simp add: saveSettings_args_def)
  show "commands (trace (handleSetup r1' r2' s)) =
     commands (trace s) @ Save_settings
        \<lparr>arg_serverUrl = trim (el_value (document s ''setup-server-url'')),
         arg_accessToken = trim (el_value (document s ''setup-token'')),
         arg_updateInterval = Exact 60, arg_language = currentLanguage s,
         arg_autostart = False\<rparr> #
       (case r1' of Inl err \<Rightarrow> [] | Inr u \<Rightarrow> [Register_device])"
    by (rule handleSetup_commands)
qed


theorem submitted_interval_witness:
  "interval_of_field ''abc'' = Exact 60 \<and>
   interval_of_field ''0'' = Exact 60 \<and>
   interval_of_field ''15'' = Exact 15 \<and>
   interval_of_field (show_nat 30) = Exact 30 \<and>
   interval_of_field (CHR ''-'' # show_nat 30) = Exact (- 30)"
proof -
  note A = submitted_interval [of "''abc''" 30 no_tables "Inr ()" "Inr ()"
      "initial (\<lambda>i. blank_element)" "Inr ()" "Inr ()"]
  note B = submitted_interval [of "''0''" 30 no_tables "Inr ()" "Inr ()"
      "initial (\<lambda>i. blank_element)" "Inr ()" "Inr ()"]
  note C = submitted_interval [of "''15''" 30 no_tables "Inr ()" "Inr ()"
      "initial (\<lambda>i. blank_element)" "Inr ()" "Inr ()"]
  have a: "parseInt ''abc'' = NaN \<or> parseInt ''abc'' = Exact 0" by code_simp
  have b: "parseInt ''0'' = NaN \<or> parseInt ''0'' = Exact 0" by code_simp
  have c: "parseInt ''15'' \<noteq> NaN \<and> parseInt ''15'' \<noteq> Exact 0" by code_simp
  have c': "parseInt ''15'' = Exact 15" by code_simp
  have n: "0 < (30::nat) \<and> int 30 \<le> 2 ^ 53" by simp
  note N = mp [OF A [THEN conjunct2, THEN conjunct2, THEN conjunct2, THEN conjunct2,
                     THEN conjunct1] n]
  from mp [OF A [THEN conjunct2, THEN conjunct2, THEN conjunct1] a]
       mp [OF B [THEN conjunct2, THEN conjunct2, THEN conjunct1] b]
       mp [OF C [THEN conjunct2, THEN conjunct2, THEN conjunct2, THEN conjunct1] c]
       N [THEN conjunct1] N [THEN conjunct2] c'
  show ?thesis by simp
qed

theorem interval_at_least_one_counterexample:
  "interval_of_field ''-5'' = Exact (- 5) \<and>
   \<not> integer_at_least_one (interval_of_field ''-5'') \<and>
   commands (trace (saveSettings no_tables (Inr ()) (Inr ())
      (set_value ''settings-interval'' ''-5'' (initial (\<lambda>i. blank_element))))) =
     [Save_settings \<lparr>arg_serverUrl = [], arg_accessToken = [], arg_updateInterval = Exact (- 5),
                     arg_language = [], arg_autostart = False\<rparr>,
      Load_dashboard]"
proof -
  have a: "interval_of_field ''-5'' = Exact (- 5)" by code_simp
  have t: "trim [] = []" by code_simp
  have "saveSettings_args (set_value ''settings-interval'' ''-5'' (initial (\<lambda>i. blank_element))) =
          \<lparr>arg_serverUrl = [], arg_accessToken = [], arg_updateInterval = Exact (- 5),
           arg_language = [], arg_autostart = False\<rparr>"
    by (simp add: saveSettings_args_def set_value_def initial_def blank_element_def a t)
  then show ?thesis
    by (simp add: a saveSettings_commands initial_def set_value_def)
qed

subsection \<open>The token in the settings modal\<close>

lemma openSettings_messages:
  "messages (trace (openSettings T r1 r2 s)) =
     messages (trace s) @
       (case r1 of
          Inl err \<Rightarrow> [ConsoleError [''Failed to load settings:'', err]]
        | Inr cs \<Rightarrow>
            (case r2 of Inl err \<Rightarrow> [ConsoleError [''Failed to load sensor list:'', err]]
             | Inr sensors \<Rightarrow> []))"
  by (simp add: openSettings_trace messages_def split: sum.splits)

lemma saveSettings_messages:
  "messages (trace (saveSettings T r1 r2 s)) =
     messages (trace s) @
       (case r1 of
          Inl err \<Rightarrow> [ConsoleError [''Failed to save settings:'', err],
                      Alert (''Failed to save settings: '' @ err)]
        | Inr u \<Rightarrow>
            (case translation_table T (el_value (document s ''settings-language'')) of
               None \<Rightarrow> [ConsoleWarn [''Language '' @ [CHR 0x27] @
                                      el_value (document s ''settings-language'') @ [CHR 0x27] @
                                      '' not supported, falling back to '' @
                                      [CHR 0x27] @ ''en'' @ [CHR 0x27]]]
             | Some l \<Rightarrow> [])
            @ (case r2 of Inl err \<Rightarrow> [ConsoleError [''Failed to restore dashboard:'', err]]
               | Inr u' \<Rightarrow> []))"
  by (simp add: saveSettings_trace messages_def split: sum.splits option.splits)

lemma openSettings_token_field:
  "el_value (document (openSettings T (Inr cs) r2 s) ''settings-token'') = access_token cs"
  "el_type (document (openSettings T r1 r2 s) ''settings-token'') =
     el_type (document s ''settings-token'')"
  "\<not> is_hidden ''settings-overlay'' (openSettings T (Inr cs) r2 s)"
  by (simp_all add: openSettings_def Let_def dom_ops is_hidden_def split: sum.splits)

lemma saveSettings_token_field:
  "el_value (document (saveSettings T r1 r2 s) ''settings-token'') =
     el_value (document s ''settings-token'')"
  "el_type (document (saveSettings T r1 r2 s) ''settings-token'') =
     el_type (document s ''settings-token'')"
  by (simp_all add: saveSettings_def closeSettings_def Let_def dom_ops split: sum.splits)

lemma togglePassword_element:
  "el_type (document (togglePassword i s) j) =
     (if j = i then flip_type (el_type (document s j)) else el_type (document s j))"
  "el_value (document (togglePassword i s) j) = el_value (document s j)"
  "is_hidden j (togglePassword i s) = is_hidden j s"
  by (simp_all add: togglePassword_def flip_type_def is_hidden_def)

lemma step_token_field_type:
  "is_settings_event e \<Longrightarrow>
   el_type (document (step T e s) ''settings-token'') =
     (if e = TogglePassword ''settings-token''
      then flip_type (el_type (document s ''settings-token''))
      else el_type (document s ''settings-token''))"
  by (cases e) (auto simp: openSettings_token_field saveSettings_token_field togglePassword_element)

lemma run_token_field_type:
  "list_all is_settings_event evs \<Longrightarrow>
   el_type (document (run T evs s) ''settings-token'') =
     (flip_type ^^ count_list evs (TogglePassword ''settings-token''))
       (el_type (document s ''settings-token''))"
proof (induction evs arbitrary: s)
  case Nil
  show ?case by simp
next
  case (Cons e evs)
  then have "el_type (document (run T evs (step T e s)) ''settings-token'') =
     (flip_type ^^ count_list evs (TogglePassword ''settings-token''))
       (el_type (document (step T e s) ''settings-token''))"
    by simp
  with Cons.prems show ?case
    by (simp add: step_token_field_type funpow_swap1)
qed

text \<open>
  The messages of a run of the settings operations do not depend on the token: not on the
  one that \<^verbatim>\<open>get_settings\<close> answers with, and not on the content of the token field.
\<close>

lemma openSettings_language_field:
  "el_value (document (openSettings T r1 r2 s) ''settings-language'') =
     (case r1 of Inl err \<Rightarrow> el_value (document s ''settings-language'')
      | Inr cs \<Rightarrow> if language cs = [] then ''en'' else language cs)"
  by (simp add: openSettings_def Let_def dom_ops split: sum.splits)

lemma saveSettings_language_field:
  "el_value (document (saveSettings T r1 r2 s) ''settings-language'') =
     el_value (document s ''settings-language'')"
  by (simp add: saveSettings_def closeSettings_def Let_def dom_ops split: sum.splits)

lemma step_messages_same:
  assumes "is_settings_event e"
    and "messages (trace s) = messages (trace s')"
    and "el_value (document s ''settings-language'') = el_value (document s' ''settings-language'')"
  shows "messages (trace (step T (with_token f e) s')) = messages (trace (step T e s)) \<and>
         el_value (document (step T (with_token f e) s') ''settings-language'') =
         el_value (document (step T e s) ''settings-language'')"
proof (cases e)
  case (OpenSettings r1 r2)
  with assms show ?thesis
    by (cases r1) (simp_all add: openSettings_messages openSettings_language_field)
next
  case (SaveSettings r1 r2)
  with assms show ?thesis
    by (simp add: saveSettings_messages saveSettings_language_field
        split: sum.splits option.splits)
next
  case (TogglePassword i)
  with assms show ?thesis
    by (simp add: togglePassword_element)
qed (use assms in simp_all)

lemma run_messages_same:
  assumes "list_all is_settings_event evs"
    and "messages (trace s) = messages (trace s')"
    and "el_value (document s ''settings-language'') = el_value (document s' ''settings-language'')"
  shows "messages (trace (run T (map (with_token f) evs) s')) = messages (trace (run T evs s))"
  using assms
proof (induction evs arbitrary: s s')
  case Nil
  then show ?case by simp
next
  case (Cons e evs)
  from Cons.prems have e: "is_settings_event e" and es: "list_all is_settings_event evs"
    by simp_all
  from step_messages_same[OF e Cons.prems(2,3), of T f]
  have "messages (trace (step T e s)) = messages (trace (step T (with_token f e) s'))"
       "el_value (document (step T e s) ''settings-language'') =
        el_value (document (step T (with_token f e) s') ''settings-language'')"
    by simp_all
  from Cons.IH[OF es this] show ?case by simp
qed

text \<open>
  C2, as the code has it. The settings operations send to the console and to \<^verbatim>\<open>alert\<close>
  only their fixed messages with the error value of the backend (and the warning for a
  language without a table): the token is in none of them. \<^verbatim>\<open>openSettings\<close> puts the whole
  token into the value of the token field; the field shows it in clear text exactly when
  its type is not \<^verbatim>\<open>password\<close>. \<^verbatim>\<open>togglePassword\<close> switches the type between \<^verbatim>\<open>password\<close>
  and \<^verbatim>\<open>text\<close> and the other two operations leave it alone, so in a run of the three
  operations the type of the token field is given by the number of toggles of that field.
  The messages of such a run are the same whatever token the backend answers with and
  whatever the token field holds.
\<close>

theorem token_masked_until_toggled:
  "messages (trace (openSettings T r1 r2 s)) =
     messages (trace s) @
       (case r1 of
          Inl err \<Rightarrow> [ConsoleError [''Failed to load settings:'', err]]
        | Inr cs \<Rightarrow>
            (case r2 of Inl err \<Rightarrow> [ConsoleError [''Failed to load sensor list:'', err]]
             | Inr sensors \<Rightarrow> [])) \<and>
   messages (trace (togglePassword i s)) = messages (trace s) \<and>
   messages (trace (saveSettings T r3 r4 s)) =
     messages (trace s) @
       (case r3 of
          Inl err \<Rightarrow> [ConsoleError [''Failed to save settings:'', err],
                      Alert (''Failed to save settings: '' @ err)]
        | Inr u \<Rightarrow>
            (case translation_table T (el_value (document s ''settings-language'')) of
               None \<Rightarrow> [ConsoleWarn [''Language '' @ [CHR 0x27] @
                                      el_value (document s ''settings-language'') @ [CHR 0x27] @
                                      '' not supported, falling back to '' @
                                      [CHR 0x27] @ ''en'' @ [CHR 0x27]]]
             | Some l \<Rightarrow> [])
            @ (case r4 of Inl err \<Rightarrow> [ConsoleError [''Failed to restore dashboard:'', err]]
               | Inr u' \<Rightarrow> [])) \<and>
   el_value (document (openSettings T (Inr cs) r2 s) ''settings-token'') = access_token cs \<and>
   token_displayed_in_full (openSettings T (Inr cs) r2 s) (access_token cs) =
     (el_type (document s ''settings-token'') \<noteq> ''password'') \<and>
   token_displayed_in_full (togglePassword ''settings-token'' s) tok =
     (\<not> is_hidden ''settings-overlay'' s \<and>
      el_type (document s ''settings-token'') = ''password'' \<and>
      el_value (document s ''settings-token'') = tok) \<and>
   (list_all is_settings_event evs \<longrightarrow>
      el_type (document (run T evs s) ''settings-token'') =
        (flip_type ^^ count_list evs (TogglePassword ''settings-token''))
          (el_type (document s ''settings-token''))) \<and>
   (list_all is_settings_event evs \<longrightarrow>
      messages (trace (run T (map (with_token f) evs) (set_value ''settings-token'' v s))) =
      messages (trace (run T evs s)))"
proof (intro conjI impI)
  show "messages (trace (run T (map (with_token f) evs) (set_value ''settings-token'' v s))) =
        messages (trace (run T evs s))" if "list_all is_settings_event evs"
    using that by (intro run_messages_same) (simp_all add: set_value_def)
  show "token_displayed_in_full (openSettings T (Inr cs) r2 s) (access_token cs) =
     (el_type (document s ''settings-token'') \<noteq> ''password'')"
    by (simp add: token_displayed_in_full_def shows_in_clear_def openSettings_token_field)
  show "token_displayed_in_full (togglePassword ''settings-token'' s) tok =
     (\<not> is_hidden ''settings-overlay'' s \<and>
      el_type (document s ''settings-token'') = ''password'' \<and>
      el_value (document s ''settings-token'') = tok)"
    by (auto simp: token_displayed_in_full_def shows_in_clear_def togglePassword_element
        flip_type_def)
qed (simp_all add: openSettings_messages saveSettings_messages openSettings_token_field
       run_token_field_type)

theorem token_masked_until_toggled_witness:
  "list_all is_settings_event
     [OpenSettings (Inr registered_settings) (Inr []), TogglePassword ''settings-token'',
      TogglePassword ''settings-token''] \<and>
   el_type (document (run no_tables
     [OpenSettings (Inr registered_settings) (Inr []), TogglePassword ''settings-token'',
      TogglePassword ''settings-token''] (initial settings_page)) ''settings-token'') = ''password'' \<and>
   \<not> token_displayed_in_full
       (openSettings no_tables (Inr registered_settings) (Inr []) (initial settings_page))
       (access_token registered_settings)"
proof -
  let ?evs = "[OpenSettings (Inr registered_settings) (Inr []), TogglePassword ''settings-token'',
      TogglePassword ''settings-token'']"
  note A = token_masked_until_toggled [of no_tables "Inr registered_settings" "Inr []"
      "initial settings_page" "''settings-token''" "Inr ()" "Inr ()" registered_settings
      "''abc''" ?evs]
  have h: "list_all is_settings_event ?evs" by simp
  have ty: "el_type (document (initial settings_page) ''settings-token'') = ''password''"
    by (simp add: initial_def settings_page_def password_input_def)
  have c: "(flip_type ^^ count_list ?evs (TogglePassword ''settings-token'')) ''password'' =
             ''password''"
    by (simp add: flip_type_def)
  note R = mp [OF A [THEN conjunct2, THEN conjunct2, THEN conjunct2, THEN conjunct2,
                     THEN conjunct2, THEN conjunct2, THEN conjunct1] h]
  from R have a: "el_type (document (run no_tables ?evs (initial settings_page))
                    ''settings-token'') = ''password''"
    by (simp only: ty c)
  from A [THEN conjunct2, THEN conjunct2, THEN conjunct2, THEN conjunct2, THEN conjunct1] ty
  have b: "\<not> token_displayed_in_full
       (openSettings no_tables (Inr registered_settings) (Inr []) (initial settings_page))
       (access_token registered_settings)"
    by simp
  from h a b show ?thesis by (intro conjI)
qed

theorem token_displayed_in_full_counterexample:
  "token_displayed_in_full
     (run no_tables
        [OpenSettings (Inr registered_settings) (Inr []), TogglePassword ''settings-token'']
        (initial settings_page))
     (access_token registered_settings) \<and>
   access_token registered_settings = ''abc'' \<and>
   el_value (document (run no_tables
        [OpenSettings (Inr registered_settings) (Inr []), TogglePassword ''settings-token'']
        (initial settings_page)) ''settings-token'') = ''abc'' \<and>
   el_type (document (run no_tables
        [OpenSettings (Inr registered_settings) (Inr []), TogglePassword ''settings-token'']
        (initial settings_page)) ''settings-token'') = ''text''"
  by (simp add: token_displayed_in_full_def shows_in_clear_def togglePassword_element
      openSettings_token_field flip_type_def initial_def settings_page_def password_input_def
      registered_settings_def)

subsection \<open>The check boxes of the sensor list\<close>

lemma checkbox_change_rows:
  "i < length (sensor_rows s) \<Longrightarrow>
   sensor_rows (checkbox_change i s) =
     (sensor_rows s)[i := (sensor_rows s ! i)\<lparr>row_checked := \<not> row_checked (sensor_rows s ! i)\<rparr>] \<and>
   in_flight (checkbox_change i s) =
     in_flight s @ [(rows_generation s, i, row_sensor (sensor_rows s ! i),
                     \<not> row_checked (sensor_rows s ! i))] \<and>
   persisted (checkbox_change i s) = persisted s \<and>
   rows_generation (checkbox_change i s) = rows_generation s"
  by (simp add: checkbox_change_def Let_def)

lemma checkbox_change_out_of_range:
  "\<not> i < length (sensor_rows s) \<Longrightarrow> checkbox_change i s = s"
  by (simp add: checkbox_change_def)

text \<open>A change of a check box with no call in flight, and then the rejection of its call.\<close>

lemma change_then_rejected:
  assumes "in_flight s = []" "i < length (sensor_rows s)"
  shows "sensor_rows (toggle_settled (Inl err) (checkbox_change i s)) = sensor_rows s"
    and "persisted (toggle_settled (Inl err) (checkbox_change i s)) = persisted s"
    and "in_flight (toggle_settled (Inl err) (checkbox_change i s)) = []"
    and "rows_generation (toggle_settled (Inl err) (checkbox_change i s)) = rows_generation s"
  using assms checkbox_change_rows[of i s]
  by (simp_all add: toggle_settled_def Let_def list_update_same_conv)

text \<open>The same change, and then the success of its call.\<close>

lemma change_then_resolved:
  assumes "in_flight s = []" "i < length (sensor_rows s)"
  shows "sensor_rows (toggle_settled (Inr u) (checkbox_change i s)) =
           (sensor_rows s)[i := (sensor_rows s ! i)
              \<lparr>row_checked := \<not> row_checked (sensor_rows s ! i)\<rparr>]"
    and "persisted (toggle_settled (Inr u) (checkbox_change i s)) =
           (persisted s)(row_sensor (sensor_rows s ! i) \<mapsto> \<not> row_checked (sensor_rows s ! i))"
    and "in_flight (toggle_settled (Inr u) (checkbox_change i s)) = []"
    and "rows_generation (toggle_settled (Inr u) (checkbox_change i s)) = rows_generation s"
  using assms checkbox_change_rows[of i s]
  by (simp_all add: toggle_settled_def Let_def)

lemma settled_nothing_in_flight: "in_flight s = [] \<Longrightarrow> toggle_settled r s = s"
  by (simp add: toggle_settled_def)

lemma change_then_settled_keeps:
  assumes nf: "in_flight s = []"
    and d: "distinct (map row_sensor (sensor_rows s))"
    and sp: "rows_show_persisted s"
  shows "in_flight (toggle_settled r (checkbox_change i s)) = [] \<and>
         map row_sensor (sensor_rows (toggle_settled r (checkbox_change i s))) =
           map row_sensor (sensor_rows s) \<and>
         rows_show_persisted (toggle_settled r (checkbox_change i s))"
proof (cases "i < length (sensor_rows s)")
  case False
  with nf sp show ?thesis
    by (simp add: checkbox_change_out_of_range settled_nothing_in_flight)
next
  case True
  show ?thesis
  proof (cases r)
    case (Inl err)
    with nf True sp show ?thesis
      by (simp add: change_then_rejected rows_show_persisted_def)
  next
    case (Inr u)
    let ?rows = "sensor_rows s"
    let ?new = "?rows[i := (?rows ! i)\<lparr>row_checked := \<not> row_checked (?rows ! i)\<rparr>]"
    have ids: "map row_sensor ?new = map row_sensor ?rows"
      using True by (simp add: map_update list_update_same_conv)
    have "list_all (\<lambda>row. ((persisted s)(row_sensor (?rows ! i) \<mapsto> \<not> row_checked (?rows ! i)))
                            (row_sensor row) = Some (row_checked row)) ?new"
      unfolding list_all_length
    proof (intro allI impI)
      fix n
      assume n: "n < length ?new"
      show "((persisted s)(row_sensor (?rows ! i) \<mapsto> \<not> row_checked (?rows ! i)))
              (row_sensor (?new ! n)) = Some (row_checked (?new ! n))"
      proof (cases "n = i")
        case True
        with \<open>i < length ?rows\<close> show ?thesis by simp
      next
        case False
        from n have n': "n < length ?rows" by simp
        from n' \<open>i < length ?rows\<close>
        have "n < length (map row_sensor ?rows)" "i < length (map row_sensor ?rows)"
          by simp_all
        with d False have "map row_sensor ?rows ! n \<noteq> map row_sensor ?rows ! i"
          by (simp only: nth_eq_iff_index_eq not_False_eq_True)
        with n' \<open>i < length ?rows\<close> have "row_sensor (?rows ! n) \<noteq> row_sensor (?rows ! i)"
          by simp
        moreover from sp n' have "persisted s (row_sensor (?rows ! n)) = Some (row_checked (?rows ! n))"
          by (simp add: rows_show_persisted_def list_all_length)
        ultimately show ?thesis using False by simp
      qed
    qed
    with nf True Inr ids show ?thesis
      by (simp add: change_then_resolved rows_show_persisted_def)
  qed
qed

lemma one_at_a_time_keeps:
  assumes "in_flight s = []" "distinct (map row_sensor (sensor_rows s))" "rows_show_persisted s"
  shows "in_flight (run T (one_at_a_time xs) s) = [] \<and>
         rows_show_persisted (run T (one_at_a_time xs) s)"
  using assms
proof (induction xs arbitrary: s)
  case Nil
  then show ?case by simp
next
  case (Cons x xs)
  obtain i r where x: "x = (i, r)" by (cases x)
  from change_then_settled_keeps[OF Cons.prems, of r i] Cons.prems(2)
  have "in_flight (toggle_settled r (checkbox_change i s)) = []"
       "distinct (map row_sensor (sensor_rows (toggle_settled r (checkbox_change i s))))"
       "rows_show_persisted (toggle_settled r (checkbox_change i s))"
    by simp_all
  from Cons.IH[OF this] x show ?case by simp
qed

lemma populated_rows_show_persisted:
  assumes "distinct (map sensor_id sensors)"
  shows "rows_show_persisted (populateSensorList T (Inr sensors) s) \<and>
         distinct (map row_sensor (sensor_rows (populateSensorList T (Inr sensors) s)))"
proof -
  have m: "row_sensor \<circ> sensor_row_of T s' = sensor_id" for s'
    by (rule ext) (simp add: sensor_row_of_def)
  have "distinct (map fst (map (\<lambda>x. (sensor_id x, enabled x)) sensors))"
    using assms by (simp add: comp_def)
  then have "\<forall>x\<in>set sensors. reported_enablement sensors (sensor_id x) = Some (enabled x)"
    unfolding reported_enablement_def
    by (auto intro!: map_of_is_SomeI)
  then have "rows_show_persisted (populateSensorList T (Inr sensors) s)"
    by (simp add: rows_show_persisted_def populateSensorList_def Let_def list_all_iff
        sensor_row_of_def)
  moreover have "distinct (map row_sensor (sensor_rows (populateSensorList T (Inr sensors) s)))"
    using assms by (simp add: populateSensorList_def Let_def m)
  ultimately show ?thesis by simp
qed

text \<open>
  When a check box is changed while no \<^verbatim>\<open>toggle_sensor\<close> call is in flight and the call is
  rejected before anything else happens, the rejection is logged and the rows are as they
  were before the change, as is the persisted enablement. A freshly populated list shows the
  persisted enablement and, as long as every change is answered before the next one is
  made, it does so again after every answer.
\<close>

lemma rejected_toggle_reverts_checkbox:
  "(in_flight s = [] \<and> i < length (sensor_rows s) \<longrightarrow>
      sensor_rows (toggle_settled (Inl err) (checkbox_change i s)) = sensor_rows s \<and>
      persisted (toggle_settled (Inl err) (checkbox_change i s)) = persisted s \<and>
      in_flight (toggle_settled (Inl err) (checkbox_change i s)) = [] \<and>
      messages (trace (toggle_settled (Inl err) (checkbox_change i s))) =
        messages (trace s) @ [ConsoleError [''Failed to toggle sensor:'', err]]) \<and>
   (distinct (map sensor_id sensors) \<longrightarrow>
      rows_show_persisted (populateSensorList T (Inr sensors) s)) \<and>
   (in_flight s = [] \<and> distinct (map row_sensor (sensor_rows s)) \<and> rows_show_persisted s \<longrightarrow>
      in_flight (run T (one_at_a_time xs) s) = [] \<and>
      rows_show_persisted (run T (one_at_a_time xs) s))"
proof (intro conjI impI)
  assume a: "in_flight s = [] \<and> i < length (sensor_rows s)"
  then show "sensor_rows (toggle_settled (Inl err) (checkbox_change i s)) = sensor_rows s"
    by (simp add: change_then_rejected)
  from a show "persisted (toggle_settled (Inl err) (checkbox_change i s)) = persisted s"
    by (simp add: change_then_rejected)
  from a show "in_flight (toggle_settled (Inl err) (checkbox_change i s)) = []"
    by (simp add: change_then_rejected)
  from a checkbox_change_rows[of i s]
  show "messages (trace (toggle_settled (Inl err) (checkbox_change i s))) =
        messages (trace s) @ [ConsoleError [''Failed to toggle sensor:'', err]]"
    by (simp add: toggle_settled_trace checkbox_change_trace messages_def)
next
  assume "distinct (map sensor_id sensors)"
  then show "rows_show_persisted (populateSensorList T (Inr sensors) s)"
    by (simp add: populated_rows_show_persisted)
next
  assume b: "in_flight s = [] \<and> distinct (map row_sensor (sensor_rows s)) \<and>
             rows_show_persisted s"
  then show "in_flight (run T (one_at_a_time xs) s) = []"
    using one_at_a_time_keeps[of s T xs] by simp
  from b show "rows_show_persisted (run T (one_at_a_time xs) s)"
    using one_at_a_time_keeps[of s T xs] by simp
qed

text \<open>
  What the handler does after a rejection is to negate the value that its check box has at
  that moment. That is the value before the change only if the check box still shows the
  value that was sent.
\<close>

lemma rejection_negates_current_value:
  assumes "in_flight s = (g, i, sid, sent) # rest" "g = rows_generation s"
    "i < length (sensor_rows s)"
  shows "row_checked (sensor_rows (toggle_settled (Inl err) s) ! i) =
           (\<not> row_checked (sensor_rows s ! i))"
    and "(row_checked (sensor_rows (toggle_settled (Inl err) s) ! i) = (\<not> sent)) =
           (row_checked (sensor_rows s ! i) = sent)"
  using assms by (auto simp: toggle_settled_def Let_def)

lemma one_sensor_page_fields:
  "sensor_rows one_sensor_page =
     [\<lparr>row_sensor = ''cpu_usage'', checkbox_id = ''sensor-cpu_usage'', row_checked = True,
       label_text = ''cpu_usage'', badge_class = ''sensor-badge badge-dynamic'',
       badge_text = ''updates_at_interval''\<rparr>]"
  "in_flight one_sensor_page = []"
  "persisted one_sensor_page ''cpu_usage'' = Some True"
  "rows_generation one_sensor_page = 1"
  by (simp_all add: one_sensor_page_def populateSensorList_def Let_def initial_def
      sensor_row_of_def cpu_sensor_def reported_enablement_def t_def no_tables_def
      translation_table_def truthy_entry_def)

text \<open>
  While a call is in flight the check box shows the value that was sent, which is not yet
  persisted.
\<close>

lemma box_shows_sent_value_while_in_flight:
  "rows_show_persisted one_sensor_page \<and>
   \<not> rows_show_persisted (run no_tables [CheckboxChange 0] one_sensor_page) \<and>
   map row_checked (sensor_rows (run no_tables [CheckboxChange 0] one_sensor_page)) = [False] \<and>
   persisted (run no_tables [CheckboxChange 0] one_sensor_page) ''cpu_usage'' = Some True"
  by (simp add: rows_show_persisted_def checkbox_change_def Let_def one_sensor_page_fields)

text \<open>
  C10: after a rejected \<^verbatim>\<open>toggle_sensor\<close> call the check box is to be back at its value before
  the change, so that the list shows what is persisted. The handler misses that when the
  same check box is changed twice before the first call is answered. The list has
  one sensor, enabled, and nothing in flight. The first change sends \<open>False\<close>, the second
  \<open>True\<close>. The first call is rejected: its handler negates the \<open>True\<close> that the second change
  has set, and the check box shows \<open>False\<close>, not the \<open>True\<close> it had before the first change.
  The second call succeeds and persists \<open>True\<close>: with no call left in flight the list
  shows the sensor disabled while it is persisted as enabled.
\<close>

theorem overlapping_change_defeats_revert:
  "map row_checked (sensor_rows one_sensor_page) = [True] \<and>
   in_flight one_sensor_page = [] \<and>
   in_flight (run no_tables [CheckboxChange 0, CheckboxChange 0] one_sensor_page) =
     [(1, 0, ''cpu_usage'', False), (1, 0, ''cpu_usage'', True)] \<and>
   map row_checked (sensor_rows (run no_tables
      [CheckboxChange 0, CheckboxChange 0, ToggleSettled (Inl ''offline'')]
      one_sensor_page)) = [False] \<and>
   in_flight (run no_tables
      [CheckboxChange 0, CheckboxChange 0, ToggleSettled (Inl ''offline''), ToggleSettled (Inr ())]
      one_sensor_page) = [] \<and>
   map row_checked (sensor_rows (run no_tables
      [CheckboxChange 0, CheckboxChange 0, ToggleSettled (Inl ''offline''), ToggleSettled (Inr ())]
      one_sensor_page)) = [False] \<and>
   persisted (run no_tables
      [CheckboxChange 0, CheckboxChange 0, ToggleSettled (Inl ''offline''), ToggleSettled (Inr ())]
      one_sensor_page) ''cpu_usage'' = Some True \<and>
   \<not> rows_show_persisted (run no_tables
      [CheckboxChange 0, CheckboxChange 0, ToggleSettled (Inl ''offline''), ToggleSettled (Inr ())]
      one_sensor_page)"
  by (simp add: checkbox_change_def toggle_settled_def Let_def one_sensor_page_fields
      rows_show_persisted_def)

end
